theory Spec2Isabelle
  imports Complex_Main "HOL-Library.Sublist" "HOL-Library.Multiset"
begin

section \<open>Python strings\<close>

text \<open>
  A Python \<open>str\<close> is a sequence of Unicode code points.  Isabelle's \<open>char\<close> has only
  eight bits, so a string is modelled as a list of code points (natural numbers), and
  \<open>py\<close> turns an ASCII literal of the source into such a list.
\<close>

type_synonym pystr = "nat list"

definition py :: "string \<Rightarrow> pystr" where
  "py s = map of_char s"

text \<open>
  \<open>str.isspace\<close> for one code point, as \<open>str.strip()\<close> and \<open>str.split()\<close> without
  arguments use it: the ASCII table of CPython (\<open>\t \n \v \f \r\<close>, \<open>0x1c..0x1f\<close>, space)
  and, beyond ASCII, the code points of bidirectional class WS, B or S or of category Zs.
\<close>

definition isspace :: "nat \<Rightarrow> bool" where
  "isspace c \<longleftrightarrow>
     (9 \<le> c \<and> c \<le> 13) \<or> (28 \<le> c \<and> c \<le> 32) \<or> c = 133 \<or> c = 160 \<or> c = 5760 \<or>
     (8192 \<le> c \<and> c \<le> 8202) \<or> c = 8232 \<or> c = 8233 \<or> c = 8239 \<or> c = 8287 \<or>
     c = 12288"

definition startswith :: "pystr \<Rightarrow> pystr \<Rightarrow> bool" where
  "startswith s p = prefix p s"

definition endswith :: "pystr \<Rightarrow> pystr \<Rightarrow> bool" where
  "endswith s p = suffix p s"

text \<open>\<open>s[a:-b]\<close> for \<open>b > 0\<close>: empty when the two ends cross.\<close>

definition slice_from_to_end :: "nat \<Rightarrow> nat \<Rightarrow> pystr \<Rightarrow> pystr" where
  "slice_from_to_end a b s = drop a (take (length s - b) s)"

definition strip :: "pystr \<Rightarrow> pystr" where
  "strip s = rev (dropWhile isspace (rev (dropWhile isspace s)))"

text \<open>\<open>s.split()\<close>: the maximal runs of non-whitespace code points, left to right.\<close>

function split_ws :: "pystr \<Rightarrow> pystr list" where
  "split_ws s =
     (case dropWhile isspace s of
        [] \<Rightarrow> []
      | c # cs \<Rightarrow>
          (c # takeWhile (\<lambda>x. \<not> isspace x) cs) # split_ws (dropWhile (\<lambda>x. \<not> isspace x) cs))"
  by pat_completeness auto
termination
proof (relation "measure length")
  fix s :: pystr and c cs
  assume "dropWhile isspace s = c # cs"
  then have "length (c # cs) \<le> length s"
    by (metis length_dropWhile_le)
  moreover have "length (dropWhile (\<lambda>x. \<not> isspace x) cs) \<le> length cs"
    by (rule length_dropWhile_le)
  ultimately show "(dropWhile (\<lambda>x. \<not> isspace x) cs, s) \<in> measure length"
    by simp
qed simp

declare split_ws.simps [simp del]

text \<open>\<open>sep.join(parts)\<close>.\<close>

fun join :: "pystr \<Rightarrow> pystr list \<Rightarrow> pystr" where
  "join sep [] = []"
| "join sep [x] = x"
| "join sep (x # y # ys) = x @ sep @ join sep (y # ys)"

text \<open>
  \<open>re.sub(r'--.*$', '', s, flags=re.MULTILINE)\<close>: scanning from the left, the first
  \<open>--\<close> of a line starts a match; \<open>.*\<close> takes every code point up to the next line feed
  (the only one \<open>.\<close> refuses), where \<open>$\<close> holds; the match is deleted and the scan
  goes on at the line feed.
\<close>

function sub_line_comments :: "pystr \<Rightarrow> pystr" where
  "sub_line_comments [] = []"
| "sub_line_comments [c] = [c]"
| "sub_line_comments (c # d # cs) =
     (if c = 45 \<and> d = 45 then sub_line_comments (dropWhile (\<lambda>x. x \<noteq> 10) cs)
      else c # sub_line_comments (d # cs))"
  by pat_completeness auto
termination
proof (relation "measure length")
  fix c d :: nat and cs :: pystr
  have "length (dropWhile (\<lambda>x. x \<noteq> 10) cs) \<le> length cs"
    by (rule length_dropWhile_le)
  then show "(dropWhile (\<lambda>x. x \<noteq> 10) cs, c # d # cs) \<in> measure length"
    by simp
qed simp_all

section \<open>llm\_helper.py: sanitising the model's SQL\<close>

text \<open>
  \<open>LLMHelper._clean_sql_response\<close>, statement by statement: the fence test and slice,
  the comment substitution, \<open>' '.join(sql.split())\<close>, the terminator, the final strip.
\<close>

definition strip_fence :: "pystr \<Rightarrow> pystr" where
  "strip_fence sql =
     (if startswith sql (py ''```sql'') \<and> endswith sql (py ''```'')
        then strip (slice_from_to_end 6 3 sql)
      else if startswith sql (py ''```'') \<and> endswith sql (py ''```'')
        then strip (slice_from_to_end 3 3 sql)
      else sql)"

definition ensure_semicolon :: "pystr \<Rightarrow> pystr" where
  "ensure_semicolon sql = (if \<not> endswith sql (py '';'') then sql @ py '';'' else sql)"

definition clean_sql_response :: "pystr \<Rightarrow> pystr" where
  "clean_sql_response sql =
     strip (ensure_semicolon (join (py '' '') (split_ws (sub_line_comments (strip_fence sql)))))"

text \<open>A word of \<open>split_ws\<close>: non-empty and free of whitespace.\<close>

definition is_word :: "pystr \<Rightarrow> bool" where
  "is_word w \<longleftrightarrow> w \<noteq> [] \<and> (\<forall>c \<in> set w. \<not> isspace c)"

text \<open>The shape of a statement that sanitising leaves alone.\<close>

definition normal_form :: "pystr \<Rightarrow> bool" where
  "normal_form z \<longleftrightarrow>
     endswith z (py '';'') \<and> \<not> sublist (py ''--'') z \<and> join (py '' '') (split_ws z) = z"

section \<open>Exceptions, values and the collaborators\<close>

text \<open>
  An exception that \<open>except Exception\<close> catches: FastAPI's \<open>HTTPException\<close> with its
  status code and detail, or any other one, kept by the text \<open>str(e)\<close> gives.
  A function that may raise returns \<open>exn + 'a\<close>, \<open>Inl\<close> for the exception.
\<close>

datatype exn = Exception pystr | HTTPException nat pystr

fun str_nat :: "nat \<Rightarrow> pystr" where
  "str_nat n = (if n < 10 then [48 + n] else str_nat (n div 10) @ [48 + n mod 10])"

declare str_nat.simps [simp del]

text \<open>\<open>str(e)\<close>; Starlette prints an \<open>HTTPException\<close> as \<open>"{status_code}: {detail}"\<close>.\<close>

fun str_exn :: "exn \<Rightarrow> pystr" where
  "str_exn (Exception msg) = msg"
| "str_exn (HTTPException status_code detail) = str_nat status_code @ py '': '' @ detail"

text \<open>
  A value of a result row (SQLite hands back NULL, integers, floats and text), and the two
  values \<open>pd.to_datetime\<close> puts into a column.  A row is \<open>dict(row)\<close>: column names with
  their values, in the order of the result.
\<close>

datatype pyval = VNone | VInt int | VFloat real | VStr pystr | VTimestamp int | VNaT

type_synonym row = "(pystr \<times> pyval) list"

text \<open>
  The language-model backend.  A prompt is the f-string of \<open>generate_sql_query\<close> (filled
  with the schema and the question) or the one of \<open>format_response\<close> (filled with the
  question and the data); it is kept by what fills it.  \<open>generate_content\<close> followed by
  \<open>response.text\<close> either raises or gives the text, which may be \<open>None\<close> or empty.
\<close>

datatype prompt = Sql_prompt pystr pystr | Format_prompt pystr "row list"

datatype generation = Raises pystr | Responds "pystr option"

record LLMHelper =
  model :: "(prompt \<Rightarrow> generation) option"

section \<open>llm\_helper.py: the two calls of the backend\<close>

text \<open>The \<open>try\<close> block of \<open>generate_sql_query\<close>.\<close>

definition generate_sql_query_try :: "LLMHelper \<Rightarrow> pystr \<Rightarrow> pystr \<Rightarrow> exn + pystr" where
  "generate_sql_query_try self question schema_info =
     (case model self of
        None \<Rightarrow> Inl (Exception (py ''Model not initialized''))
      | Some generate_content \<Rightarrow>
          (case generate_content (Sql_prompt schema_info question) of
             Raises e \<Rightarrow> Inl (Exception e)
           | Responds None \<Rightarrow> Inl (Exception (py ''Empty response from model''))
           | Responds (Some text) \<Rightarrow>
               if text = [] then Inl (Exception (py ''Empty response from model''))
               else Inr (clean_sql_response text)))"

text \<open>\<open>generate_sql_query\<close>: the \<open>try\<close> block under its \<open>except Exception\<close>.\<close>

definition generate_sql_query :: "LLMHelper \<Rightarrow> pystr \<Rightarrow> pystr \<Rightarrow> exn + pystr" where
  "generate_sql_query self question schema_info =
     (case generate_sql_query_try self question schema_info of
        Inl e \<Rightarrow> Inr (py ''Error generating SQL: '' @ str_exn e)
      | Inr cleaned_sql \<Rightarrow> Inr cleaned_sql)"

definition format_response_try :: "LLMHelper \<Rightarrow> pystr \<Rightarrow> row list \<Rightarrow> exn + pystr" where
  "format_response_try self question data =
     (case model self of
        None \<Rightarrow> Inl (Exception (py ''Model not initialized''))
      | Some generate_content \<Rightarrow>
          (case generate_content (Format_prompt question data) of
             Raises e \<Rightarrow> Inl (Exception e)
           | Responds None \<Rightarrow> Inl (Exception (py ''Empty response from model''))
           | Responds (Some text) \<Rightarrow>
               if text = [] then Inl (Exception (py ''Empty response from model''))
               else Inr (strip text)))"

definition format_response :: "LLMHelper \<Rightarrow> pystr \<Rightarrow> row list \<Rightarrow> exn + pystr" where
  "format_response self question data =
     (case format_response_try self question data of
        Inl e \<Rightarrow> Inr (py ''Error formatting response: '' @ str_exn e)
      | Inr text \<Rightarrow> Inr text)"

section \<open>main.py: the application and what it does to the outside\<close>

text \<open>
  The process-wide handles of \<open>main.py\<close> and the libraries behind them:
  \<^item> \<open>llm_helper\<close>, the \<open>LLMHelper\<close> built at start-up;
  \<^item> \<open>execute\<close>: \<open>session.execute(text(sql_query))\<close> with the rows read into
    \<open>dict\<close>s, which gives the rows or raises (\<open>Inl\<close> of \<open>str(e)\<close>);
  \<^item> \<open>to_datetime\<close>: \<open>pd.to_datetime\<close> on a column, which raises or gives one time
    stamp (\<open>None\<close> for \<open>NaT\<close>) per value;
  \<^item> \<open>sort_values\<close>: \<open>df.sort_values(column)\<close>, pandas' own sort of the rows by one
    column; its default algorithm is not stable, so where rows with equal values go is
    pandas' choice;
  \<^item> \<open>savefig\<close>: matplotlib, from the drawing calls made to the PNG bytes, or to the
    exception one of the calls raises.  It is asked once, with all the calls of the
    request, so that \<open>plt.figure\<close> and \<open>plt.style.use\<close>, which come first in the source,
    are taken to succeed when a later column lookup raises.
\<close>

datatype draw =
    Figure
  | Style_use pystr
  | Plot "pyval list" "pyval list" pystr
  | Legend
  | Plot_bar pystr pystr "row list"
  | Pie "pyval list" "pyval list"
  | Title pystr
  | Xticks
  | Tight_layout

record app =
  llm_helper :: LLMHelper
  execute :: "pystr \<Rightarrow> pystr + row list"
  to_datetime :: "pyval list \<Rightarrow> pystr + int option list"
  sort_values :: "pystr \<Rightarrow> row list \<Rightarrow> row list"
  savefig :: "draw list \<Rightarrow> pystr + nat list"

text \<open>
  What a handler does besides returning, in order: the call of the SQL generator,
  \<open>get_session\<close>, \<open>session.execute\<close>, \<open>session.close\<close>, the call of the formatter.
\<close>

datatype event = Generate_sql | Session_open | Session_execute pystr | Session_close | Format_response

text \<open>The sessions a handler has opened and not closed when it returns.\<close>

definition open_sessions :: "event list \<Rightarrow> nat" where
  "open_sessions evs = count_list evs Session_open - count_list evs Session_close"

definition SCHEMA_INFO :: pystr where
  "SCHEMA_INFO = py ([CHR 0x0A] @
     ''Tables:'' @ [CHR 0x0A] @
     ''1. product_total_sales: date (Date), item_id (String), total_sales (Float), total_units_ordered (Integer)'' @ [CHR 0x0A] @
     ''2. product_ad_sales: date (Date), item_id (String), ad_sales (Float), impressions (Integer), ad_spend (Float), clicks (Integer), units_sold (Integer)'' @ [CHR 0x0A] @
     ''3. product_eligibility: eligibility_datetime_utc (DateTime), item_id (String), eligibility (String), message (String)'' @ [CHR 0x0A])"

subsection \<open>/query\<close>

record query_result =
  question :: pystr
  sql_query :: pystr
  answer :: pystr
  data :: "row list"

text \<open>The \<open>try\<close> block of \<open>answer_question\<close>; the session block is \<open>try ... finally\<close>.\<close>

definition answer_question_try :: "app \<Rightarrow> pystr \<Rightarrow> (exn + query_result) \<times> event list" where
  "answer_question_try a q =
     (case generate_sql_query (llm_helper a) q SCHEMA_INFO of
        Inl e \<Rightarrow> (Inl e, [Generate_sql])
      | Inr sql \<Rightarrow>
          if startswith sql (py ''Error'') then (Inl (HTTPException 400 sql), [Generate_sql])
          else
            (case execute a sql of
               Inl e \<Rightarrow>
                 (Inl (Exception e), [Generate_sql, Session_open, Session_execute sql, Session_close])
             | Inr rows \<Rightarrow>
                 (case format_response (llm_helper a) q rows of
                    Inl e \<Rightarrow>
                      (Inl e, [Generate_sql, Session_open, Session_execute sql, Session_close,
                               Format_response])
                  | Inr formatted_response \<Rightarrow>
                      if startswith formatted_response (py ''Error'')
                      then (Inl (HTTPException 400 formatted_response),
                            [Generate_sql, Session_open, Session_execute sql, Session_close,
                             Format_response])
                      else (Inr \<lparr>question = q, sql_query = sql, answer = formatted_response,
                                 data = rows\<rparr>,
                            [Generate_sql, Session_open, Session_execute sql, Session_close,
                             Format_response]))))"

text \<open>
  \<open>answer_question\<close>: \<open>except HTTPException: raise\<close>, then
  \<open>except Exception as e: raise HTTPException(status_code=500, detail=str(e))\<close>.
\<close>

definition answer_question :: "app \<Rightarrow> pystr \<Rightarrow> (exn + query_result) \<times> event list" where
  "answer_question a q =
     (case answer_question_try a q of
        (Inl (HTTPException status_code detail), evs) \<Rightarrow> (Inl (HTTPException status_code detail), evs)
      | (Inl (Exception e), evs) \<Rightarrow> (Inl (HTTPException 500 e), evs)
      | (Inr body, evs) \<Rightarrow> (Inr body, evs))"

subsection \<open>/query/stream\<close>

text \<open>
  The generator \<open>generate()\<close> of \<open>answer_question_stream\<close>: the chunks it yields, in
  order, and what it did.  An exception inside its \<open>try\<close> ends the stream with one more
  chunk.  The pause between two words is not modelled.
\<close>

definition answer_question_stream :: "app \<Rightarrow> pystr \<Rightarrow> pystr list \<times> event list" where
  "answer_question_stream a q =
     (case generate_sql_query (llm_helper a) q SCHEMA_INFO of
        Inl e \<Rightarrow> ([py ''Error: '' @ str_exn e @ [10]], [Generate_sql])
      | Inr sql \<Rightarrow>
          if startswith sql (py ''Error'') then ([py ''Error: '' @ sql @ [10]], [Generate_sql])
          else
            (case execute a sql of
               Inl e \<Rightarrow>
                 ([py ''Generated SQL: '' @ sql @ [10, 10], py ''Error: '' @ e @ [10]],
                  [Generate_sql, Session_open, Session_execute sql, Session_close])
             | Inr rows \<Rightarrow>
                 (case format_response (llm_helper a) q rows of
                    Inl e \<Rightarrow>
                      ([py ''Generated SQL: '' @ sql @ [10, 10], py ''Error: '' @ str_exn e @ [10]],
                       [Generate_sql, Session_open, Session_execute sql, Session_close,
                        Format_response])
                  | Inr formatted_response \<Rightarrow>
                      if startswith formatted_response (py ''Error'')
                      then ([py ''Generated SQL: '' @ sql @ [10, 10],
                             py ''Error: '' @ formatted_response @ [10]],
                            [Generate_sql, Session_open, Session_execute sql, Session_close,
                             Format_response])
                      else ((py ''Generated SQL: '' @ sql @ [10, 10]) #
                              map (\<lambda>word. word @ py '' '') (split_ws formatted_response),
                            [Generate_sql, Session_open, Session_execute sql, Session_close,
                             Format_response]))))"

subsection \<open>/query/clean\<close>

text \<open>
  \<open>clean_answer\<close>: here \<open>session.close()\<close> is a plain statement after the execution,
  with no \<open>finally\<close>, and every exception becomes the text of the answer.
\<close>

definition clean_answer :: "app \<Rightarrow> pystr \<Rightarrow> pystr \<times> event list" where
  "clean_answer a q =
     (case generate_sql_query (llm_helper a) q SCHEMA_INFO of
        Inl e \<Rightarrow> (py ''Error processing request: '' @ str_exn e, [Generate_sql])
      | Inr sql \<Rightarrow>
          if startswith sql (py ''Error'') then (py ''Error: '' @ sql, [Generate_sql])
          else
            (case execute a sql of
               Inl e \<Rightarrow>
                 (py ''Error processing request: '' @ e,
                  [Generate_sql, Session_open, Session_execute sql])
             | Inr rows \<Rightarrow>
                 (case format_response (llm_helper a) q rows of
                    Inl e \<Rightarrow>
                      (py ''Error processing request: '' @ str_exn e,
                       [Generate_sql, Session_open, Session_execute sql, Session_close,
                        Format_response])
                  | Inr formatted_response \<Rightarrow>
                      (formatted_response,
                       [Generate_sql, Session_open, Session_execute sql, Session_close,
                        Format_response]))))"

subsection \<open>/query/visualize\<close>

text \<open>
  \<open>pd.DataFrame([dict(row) ...])\<close>: the columns are the keys in the order of their first
  appearance, the length is the number of rows, and a cell a row lacks is empty.
\<close>

definition columns_of :: "row list \<Rightarrow> pystr list" where
  "columns_of rows = rev (remdups (rev (concat (map (map fst) rows))))"

definition cell :: "row \<Rightarrow> pystr \<Rightarrow> pyval" where
  "cell r c = (case map_of r c of None \<Rightarrow> VNone | Some v \<Rightarrow> v)"

definition column :: "row list \<Rightarrow> pystr \<Rightarrow> pyval list" where
  "column df c = map (\<lambda>r. cell r c) df"

fun row_set :: "row \<Rightarrow> pystr \<Rightarrow> pyval \<Rightarrow> row" where
  "row_set [] c v = [(c, v)]"
| "row_set ((k, w) # r) c v = (if k = c then (c, v) # r else (k, w) # row_set r c v)"

text \<open>
  The columns \<open>df.select_dtypes(include=['number'])\<close> keeps: a column of integers and
  floats, empty cells allowed, has a numeric dtype; a column with text or time stamps, or
  with no number at all, has not.
\<close>

fun is_number :: "pyval \<Rightarrow> bool" where
  "is_number (VInt _) = True"
| "is_number (VFloat _) = True"
| "is_number _ = False"

definition number_dtype :: "pyval list \<Rightarrow> bool" where
  "number_dtype vs \<longleftrightarrow> list_all (\<lambda>v. is_number v \<or> v = VNone) vs \<and> list_ex is_number vs"

definition select_number_columns :: "pystr list \<Rightarrow> row list \<Rightarrow> pystr list" where
  "select_number_columns cols df = filter (\<lambda>c. number_dtype (column df c)) cols"

text \<open>The automatic choice of the chart type; \<open>not chart_type\<close> holds for \<open>None\<close> and \<open>''\<close>.\<close>

definition auto_chart_type :: "pystr list \<Rightarrow> nat \<Rightarrow> pystr" where
  "auto_chart_type cols n =
     (if py ''date'' \<in> set cols \<and> n > 3 then py ''line''
      else if n \<le> 10 then py ''bar''
      else py ''histogram'')"

definition choose_chart_type :: "pystr option \<Rightarrow> pystr list \<Rightarrow> nat \<Rightarrow> pystr" where
  "choose_chart_type chart_type cols n =
     (case chart_type of
        None \<Rightarrow> auto_chart_type cols n
      | Some t \<Rightarrow> if t = [] then auto_chart_type cols n else t)"

text \<open>
  \<open>df['date'] = pd.to_datetime(df['date'])\<close>: the \<open>date\<close> cell of each row becomes
  its time stamp.
\<close>

fun stamp_cell :: "int option \<Rightarrow> pyval" where
  "stamp_cell None = VNaT"
| "stamp_cell (Some t) = VTimestamp t"

definition assign_date :: "int option list \<Rightarrow> row list \<Rightarrow> row list" where
  "assign_date stamps df = map (\<lambda>(t, r). row_set r (py ''date'') (stamp_cell t)) (zip stamps df)"

text \<open>
  What pandas documents of \<open>df.sort_values('date')\<close>: the same rows, in ascending order
  of their time stamps, \<open>NaT\<close> last.  \<open>sorted_by_date df df'\<close> says that \<open>df'\<close> is such an
  ordering of \<open>df\<close>; it leaves open where rows with equal dates go.
\<close>

fun stamp_le :: "pyval \<Rightarrow> pyval \<Rightarrow> bool" where
  "stamp_le (VTimestamp s) (VTimestamp t) = (s \<le> t)"
| "stamp_le (VTimestamp s) _ = True"
| "stamp_le _ (VTimestamp t) = False"
| "stamp_le _ _ = True"

definition date_le :: "row \<Rightarrow> row \<Rightarrow> bool" where
  "date_le r s = stamp_le (cell r (py ''date'')) (cell s (py ''date''))"

definition sorted_by_date :: "row list \<Rightarrow> row list \<Rightarrow> bool" where
  "sorted_by_date df df' \<longleftrightarrow> mset df' = mset df \<and> sorted_wrt date_le df'"

text \<open>\<open>columns[i]\<close> beyond the last column raises \<open>IndexError\<close> with this text.\<close>

definition index_error :: "nat \<Rightarrow> nat \<Rightarrow> pystr" where
  "index_error i n =
     py ''index '' @ str_nat i @ py '' is out of bounds for axis 0 with size '' @ str_nat n"

text \<open>
  The block under \<open># Generate appropriate chart\<close>: the frame as charted and the drawing
  calls made, or the exception raised.
\<close>

definition generate_chart ::
  "app \<Rightarrow> pystr \<Rightarrow> pystr list \<Rightarrow> row list \<Rightarrow> pystr + (row list \<times> draw list)" where
  "generate_chart a chart_type cols df0 =
     (if py ''date'' \<in> set cols then
        (case to_datetime a (column df0 (py ''date'')) of
           Inl e \<Rightarrow> Inl e
         | Inr stamps \<Rightarrow>
             let df = sort_values a (py ''date'') (assign_date stamps df0) in
             if chart_type = py ''line'' then
               Inr (df,
                    map (\<lambda>col. Plot (column df (py ''date'')) (column df col) col)
                      (filter (\<lambda>col. col \<noteq> py ''date'') (select_number_columns cols df))
                    @ [Legend])
             else if chart_type = py ''bar'' then
               (case select_number_columns cols df of
                  [] \<Rightarrow> Inl (index_error 0 0)
                | y # _ \<Rightarrow> Inr (df, [Plot_bar (py ''date'') y df]))
             else Inr (df, []))
      else
        (case cols of
           [] \<Rightarrow> Inl (index_error 0 0)
         | x # rest \<Rightarrow>
             if chart_type = py ''bar'' then
               (case rest of
                  [] \<Rightarrow> Inl (index_error 1 1)
                | y # _ \<Rightarrow> Inr (df0, [Plot_bar x y df0]))
             else if chart_type = py ''pie'' then
               (case rest of
                  [] \<Rightarrow> Inl (index_error 1 1)
                | y # _ \<Rightarrow> Inr (df0, [Pie (column df0 y) (column df0 x)]))
             else Inr (df0, [])))"

text \<open>The \<open>try\<close> block of \<open>visualize_data\<close>.\<close>

definition visualize_data_try ::
  "app \<Rightarrow> pystr \<Rightarrow> pystr option \<Rightarrow> (exn + nat list) \<times> event list" where
  "visualize_data_try a q chart_type =
     (case generate_sql_query (llm_helper a) q SCHEMA_INFO of
        Inl e \<Rightarrow> (Inl e, [Generate_sql])
      | Inr sql \<Rightarrow>
          if startswith sql (py ''Error'') then (Inl (HTTPException 400 sql), [Generate_sql])
          else
            (case execute a sql of
               Inl e \<Rightarrow>
                 (Inl (Exception e), [Generate_sql, Session_open, Session_execute sql, Session_close])
             | Inr rows \<Rightarrow>
                 (case generate_chart a
                         (choose_chart_type chart_type (columns_of rows) (length rows))
                         (columns_of rows) rows of
                    Inl e \<Rightarrow>
                      (Inl (Exception e),
                       [Generate_sql, Session_open, Session_execute sql, Session_close])
                  | Inr (df, calls) \<Rightarrow>
                      (case savefig a
                              ([Figure, Style_use (py ''ggplot'')] @ calls @
                               [Title (py ''Visualization: '' @ take 50 q @ py ''...''),
                                Xticks, Tight_layout]) of
                         Inl e \<Rightarrow>
                           (Inl (Exception e),
                            [Generate_sql, Session_open, Session_execute sql, Session_close])
                       | Inr png \<Rightarrow>
                           (Inr png,
                            [Generate_sql, Session_open, Session_execute sql, Session_close])))))"

text \<open>
  \<open>visualize_data\<close>: its only handler is
  \<open>except Exception as e: raise HTTPException(status_code=500, detail=str(e))\<close>, which
  also catches the \<open>HTTPException\<close> raised inside the \<open>try\<close>.
\<close>

definition visualize_data ::
  "app \<Rightarrow> pystr \<Rightarrow> pystr option \<Rightarrow> (exn + nat list) \<times> event list" where
  "visualize_data a q chart_type =
     (case visualize_data_try a q chart_type of
        (Inl e, evs) \<Rightarrow> (Inl (HTTPException 500 (str_exn e)), evs)
      | (Inr png, evs) \<Rightarrow> (Inr png, evs))"

section \<open>Properties of the string operations\<close>

lemma split_ws_Nil: "split_ws [] = []"
  by (simp add: split_ws.simps)
lemma split_ws_space: "isspace c \<Longrightarrow> split_ws (c # cs) = split_ws cs"
  by (simp add: split_ws.simps [of "c # cs"] split_ws.simps [of cs])
lemma split_ws_word:
  "\<not> isspace c \<Longrightarrow> split_ws (c # cs) =
     (c # takeWhile (\<lambda>x. \<not> isspace x) cs) # split_ws (dropWhile (\<lambda>x. \<not> isspace x) cs)"
  by (simp add: split_ws.simps [of "c # cs"])

lemma split_ws_words: "w \<in> set (split_ws s) \<Longrightarrow> is_word w"
proof (induction s arbitrary: w rule: split_ws.induct)
  case (1 s)
  show ?case
  proof (cases "dropWhile isspace s")
    case Nil
    with "1.prems" show ?thesis by (simp add: split_ws.simps [of s])
  next
    case (Cons c cs)
    then have c: "\<not> isspace c"
      by (metis hd_dropWhile list.sel(1) list.distinct(1))
    from Cons "1.prems" have
      "w = c # takeWhile (\<lambda>x. \<not> isspace x) cs \<or> w \<in> set (split_ws (dropWhile (\<lambda>x. \<not> isspace x) cs))"
      by (simp add: split_ws.simps [of s])
    then show ?thesis
    proof
      assume "w = c # takeWhile (\<lambda>x. \<not> isspace x) cs"
      with c show ?thesis by (auto simp: is_word_def dest: set_takeWhileD)
    next
      assume "w \<in> set (split_ws (dropWhile (\<lambda>x. \<not> isspace x) cs))"
      with "1.IH" Cons show ?thesis by simp
    qed
  qed
qed

lemma split_ws_sublist: "w \<in> set (split_ws s) \<Longrightarrow> sublist w s"
proof (induction s arbitrary: w rule: split_ws.induct)
  case (1 s)
  show ?case
  proof (cases "dropWhile isspace s")
    case Nil
    with "1.prems" show ?thesis by (simp add: split_ws.simps [of s])
  next
    case (Cons c cs)
    have suf: "suffix (c # cs) s"
      by (metis Cons suffix_dropWhile)
    from Cons "1.prems" have
      "w = c # takeWhile (\<lambda>x. \<not> isspace x) cs \<or> w \<in> set (split_ws (dropWhile (\<lambda>x. \<not> isspace x) cs))"
      by (simp add: split_ws.simps [of s])
    then have "sublist w (c # cs)"
    proof
      assume "w = c # takeWhile (\<lambda>x. \<not> isspace x) cs"
      then have "prefix w (c # cs)" by (simp add: takeWhile_is_prefix)
      then show ?thesis by (rule prefix_imp_sublist)
    next
      assume "w \<in> set (split_ws (dropWhile (\<lambda>x. \<not> isspace x) cs))"
      with "1.IH" Cons have "sublist w (dropWhile (\<lambda>x. \<not> isspace x) cs)" by simp
      then have "sublist w cs"
        using sublist_dropWhile sublist_order.order_trans by blast
      then show ?thesis by (simp add: sublist_Cons_right)
    qed
    with suf show ?thesis
      using suffix_imp_sublist sublist_order.order_trans by blast
  qed
qed

lemma split_ws_word_append:
  assumes "is_word w" and "r = [] \<or> isspace (hd r)"
  shows "split_ws (w @ r) = w # split_ws r"
proof -
  from assms(1) obtain c cs where w: "w = c # cs" and c: "\<not> isspace c"
    and cs: "\<forall>x \<in> set cs. \<not> isspace x"
    by (cases w) (auto simp: is_word_def)
  from cs assms(2) have t: "takeWhile (\<lambda>x. \<not> isspace x) (cs @ r) = cs"
    by (cases r) (auto simp: takeWhile_append)
  from cs assms(2) have d: "dropWhile (\<lambda>x. \<not> isspace x) (cs @ r) = r"
    by (cases r) (auto simp: dropWhile_append)
  show ?thesis
    using c t d by (simp add: w split_ws_word)
qed

lemma split_ws_join:
  "\<forall>w \<in> set ws. is_word w \<Longrightarrow> split_ws (join [32] ws) = ws"
proof (induction "[32::nat]" ws rule: join.induct)
  case 1
  show ?case by (simp add: split_ws_Nil)
next
  case (2 x)
  then have "is_word x" by simp
  from split_ws_word_append [OF this, of "[]"] show ?case by (simp add: split_ws_Nil)
next
  case (3 x y ys)
  then have x: "is_word x" and rest: "split_ws (join [32] (y # ys)) = y # ys" by simp_all
  have "split_ws (x @ 32 # join [32] (y # ys)) = x # split_ws (32 # join [32] (y # ys))"
    by (rule split_ws_word_append [OF x]) (simp add: isspace_def)
  also have "split_ws (32 # join [32] (y # ys)) = split_ws (join [32] (y # ys))"
    by (rule split_ws_space) (simp add: isspace_def)
  finally show ?case using rest by simp
qed

lemma join_split_idem: "join [32] (split_ws (join [32] (split_ws s))) = join [32] (split_ws s)"
  using split_ws_join [of "split_ws s"] split_ws_words by simp

lemma join_snoc_word:
  "ws \<noteq> [] \<Longrightarrow> join sep ws @ t = join sep (butlast ws @ [last ws @ t])"
  by (induction sep ws rule: join.induct) simp_all

lemma sublist_join:
  assumes "sublist p (join [32] ws)" and "p \<noteq> []" and "32 \<notin> set p"
  shows "\<exists>w \<in> set ws. sublist p w"
  using assms
proof (induction "[32::nat]" ws rule: join.induct)
  case 1
  then show ?case by simp
next
  case (2 x)
  then show ?case by simp
next
  case (3 x y ys)
  from "3.prems"(1) have "sublist p (x @ 32 # join [32] (y # ys))" by simp
  then consider "sublist p x" | "sublist p (32 # join [32] (y # ys))"
    | p1 p2 where "p = p1 @ p2" "suffix p1 x" "prefix p2 (32 # join [32] (y # ys))"
    by (auto simp: sublist_append)
  then show ?case
  proof cases
    case 1
    then show ?thesis by auto
  next
    case 2
    then have "prefix p (32 # join [32] (y # ys)) \<or> sublist p (join [32] (y # ys))"
      by (simp add: sublist_Cons_right)
    moreover have "\<not> prefix p (32 # join [32] (y # ys))"
      using "3.prems"(2,3) by (cases p) auto
    ultimately have "sublist p (join [32] (y # ys))" by simp
    with "3.hyps" "3.prems"(2,3) show ?thesis by auto
  next
    case 3
    have "p2 = []"
      using 3(1,3) "3.prems"(3) by (cases p2) auto
    with 3 have "sublist p x" by auto
    then show ?thesis by auto
  qed
qed

lemma sublist_join_split:
  assumes "sublist p (join [32] (split_ws s))" and "p \<noteq> []" and "32 \<notin> set p"
  shows "sublist p s"
proof -
  from sublist_join [OF assms] obtain w where "w \<in> set (split_ws s)" "sublist p w" by blast
  then show ?thesis
    using split_ws_sublist sublist_order.order_trans by blast
qed

lemma sub_line_comments_comment:
  "sub_line_comments (45 # 45 # cs) = sub_line_comments (dropWhile (\<lambda>x. x \<noteq> 10) cs)"
  by simp

lemma sub_line_comments_keep:
  "\<not> (c = 45 \<and> d = 45) \<Longrightarrow> sub_line_comments (c # d # cs) = c # sub_line_comments (d # cs)"
  by auto

declare sub_line_comments.simps(3) [simp del]

lemma sub_line_comments_dropWhile_prefix:
  assumes "prefix q (sub_line_comments (dropWhile (\<lambda>x. x \<noteq> 10) cs))" and "10 \<notin> set q"
  shows "q = []"
proof (cases "dropWhile (\<lambda>x. x \<noteq> 10) cs")
  case Nil
  with assms show ?thesis by simp
next
  case (Cons u us)
  then have "u = 10"
    by (metis (mono_tags, lifting) hd_dropWhile list.sel(1) list.distinct(1))
  then obtain r where "sub_line_comments (u # us) = 10 # r"
    by (cases us) (simp_all add: sub_line_comments_keep)
  with assms Cons show ?thesis by (cases q) auto
qed

lemma sub_line_comments_prefix:
  "prefix q (sub_line_comments t) \<Longrightarrow> 10 \<notin> set q \<Longrightarrow> prefix q t"
proof (induction t arbitrary: q rule: sub_line_comments.induct)
  case 1
  then show ?case by simp
next
  case (2 c)
  then show ?case by simp
next
  case (3 c d cs)
  show ?case
  proof (cases "c = 45 \<and> d = 45")
    case True
    with "3.prems" have "q = []"
      using sub_line_comments_dropWhile_prefix [of q cs] by (simp add: sub_line_comments_comment)
    then show ?thesis by simp
  next
    case False
    with "3.prems" have p: "prefix q (c # sub_line_comments (d # cs))"
      by (simp add: sub_line_comments_keep)
    show ?thesis
    proof (cases q)
      case Nil
      then show ?thesis by simp
    next
      case (Cons a q')
      with p have "a = c" "prefix q' (sub_line_comments (d # cs))" by simp_all
      moreover from Cons "3.prems" have "10 \<notin> set q'" by simp
      ultimately show ?thesis using "3.IH"(2) False Cons by simp
    qed
  qed
qed

lemma sub_line_comments_sublist:
  "sublist p (sub_line_comments s) \<Longrightarrow> 10 \<notin> set p \<Longrightarrow> sublist p s"
proof (induction s rule: sub_line_comments.induct)
  case 1
  then show ?case by simp
next
  case (2 c)
  then show ?case by simp
next
  case (3 c d cs)
  show ?case
  proof (cases "c = 45 \<and> d = 45")
    case True
    with "3.prems" "3.IH"(1) have "sublist p (dropWhile (\<lambda>x. x \<noteq> 10) cs)"
      by (simp add: sub_line_comments_comment)
    then have "sublist p cs"
      using sublist_dropWhile sublist_order.order_trans by blast
    then show ?thesis by (simp add: sublist_Cons_right)
  next
    case False
    with "3.prems" have "prefix p (c # sub_line_comments (d # cs)) \<or> sublist p (sub_line_comments (d # cs))"
      by (simp add: sublist_Cons_right sub_line_comments_keep)
    then show ?thesis
    proof
      assume "prefix p (c # sub_line_comments (d # cs))"
      with False have "prefix p (sub_line_comments (c # d # cs))"
        by (simp add: sub_line_comments_keep)
      from sub_line_comments_prefix [OF this "3.prems"(2)] show ?thesis by (rule prefix_imp_sublist)
    next
      assume "sublist p (sub_line_comments (d # cs))"
      with "3.IH"(2) False "3.prems"(2) have "sublist p (d # cs)" by simp
      then show ?thesis by (simp add: sublist_Cons_right)
    qed
  qed
qed

lemma sub_line_comments_no_dashes: "\<not> sublist [45, 45] (sub_line_comments s)"
proof (induction s rule: sub_line_comments.induct)
  case 1
  show ?case by simp
next
  case (2 c)
  show ?case by (simp add: sublist_Cons_right)
next
  case (3 c d cs)
  show ?case
  proof (cases "c = 45 \<and> d = 45")
    case True
    with "3.IH"(1) show ?thesis by (simp add: sub_line_comments_comment)
  next
    case False
    have "\<not> prefix [45, 45] (c # sub_line_comments (d # cs))"
    proof
      assume a: "prefix [45, 45] (c # sub_line_comments (d # cs))"
      then have c: "c = 45" and "prefix [45] (sub_line_comments (d # cs))" by simp_all
      then have "prefix [45] (d # cs)"
        using sub_line_comments_prefix [of "[45]" "d # cs"] by simp
      then have "d = 45" by simp
      with c False show False by simp
    qed
    with "3.IH"(2) False show ?thesis by (simp add: sublist_Cons_right sub_line_comments_keep)
  qed
qed

lemma sub_line_comments_id: "\<not> sublist [45, 45] s \<Longrightarrow> sub_line_comments s = s"
proof (induction s rule: sub_line_comments.induct)
  case 1
  show ?case by simp
next
  case (2 c)
  show ?case by simp
next
  case (3 c d cs)
  from "3.prems" have nd: "\<not> (c = 45 \<and> d = 45)" and "\<not> sublist [45, 45] (d # cs)"
    by (auto simp: sublist_Cons_right)
  with "3.IH"(2) show ?case by (simp add: sub_line_comments_keep)
qed

lemma strip_id: "s \<noteq> [] \<Longrightarrow> \<not> isspace (hd s) \<Longrightarrow> \<not> isspace (last s) \<Longrightarrow> strip s = s"
proof -
  assume a: "s \<noteq> []" "\<not> isspace (hd s)" "\<not> isspace (last s)"
  then have "dropWhile isspace s = s" by (cases s) simp_all
  moreover from a have "dropWhile isspace (rev s) = rev s"
    by (cases "rev s") (simp_all add: last_rev [symmetric] hd_rev)
  ultimately show ?thesis by (simp add: strip_def)
qed

lemma hd_join: "ws \<noteq> [] \<Longrightarrow> hd ws \<noteq> [] \<Longrightarrow> hd (join sep ws) = hd (hd ws)"
  by (induction sep ws rule: join.induct) simp_all

lemma join_eq_Nil: "\<forall>w \<in> set ws. w \<noteq> [] \<Longrightarrow> join sep ws = [] \<longleftrightarrow> ws = []"
  by (induction sep ws rule: join.induct) simp_all

lemma last_join: "\<forall>w \<in> set ws. w \<noteq> [] \<Longrightarrow> ws \<noteq> [] \<Longrightarrow> last (join sep ws) = last (last ws)"
proof (induction sep ws rule: join.induct)
  case (3 sep x y ys)
  then have "join sep (y # ys) \<noteq> []" using join_eq_Nil [of "y # ys" sep] by simp
  with 3 show ?case by simp
qed simp_all

lemma py_simps:
  "py '';'' = [59]" "py ''--'' = [45, 45]" "py '' '' = [32]" "py ''```'' = [96, 96, 96]"
  "py ''```sql'' = [96, 96, 96, 115, 113, 108]"
  by (simp_all add: py_def)

lemma words_snoc:
  assumes "\<forall>w \<in> set ws. is_word w" and "ws \<noteq> []" and "\<not> isspace c"
  shows "\<forall>w \<in> set (butlast ws @ [last ws @ [c]]). is_word w"
proof -
  have "is_word (last ws)" using assms(1,2) by simp
  then have "is_word (last ws @ [c])" using assms(3) by (auto simp: is_word_def)
  moreover have "\<forall>w \<in> set (butlast ws). is_word w"
    using assms(1) by (meson in_set_butlastD)
  ultimately show ?thesis by auto
qed

lemma ensure_semicolon_join:
  assumes "\<forall>w \<in> set ws. is_word w"
  shows "\<exists>ws'. (\<forall>w \<in> set ws'. is_word w) \<and> ws' \<noteq> [] \<and> ensure_semicolon (join [32] ws) = join [32] ws'
     \<and> last (last ws') = 59"
proof (cases "ws = []")
  case True
  have "is_word [59]" by (simp add: is_word_def isspace_def)
  then have "(\<forall>w \<in> set [[59]]. is_word w) \<and> [[59::nat]] \<noteq> [] \<and> ensure_semicolon (join [32] ws) = join [32] [[59]]
     \<and> last (last [[59::nat]]) = 59"
    using True by (simp add: ensure_semicolon_def endswith_def py_simps)
  then show ?thesis by blast
next
  case False
  have ne: "\<forall>w \<in> set ws. w \<noteq> []" using assms by (auto simp: is_word_def)
  then have jne: "join [32] ws \<noteq> []" using False join_eq_Nil [of ws "[32]"] by simp
  show ?thesis
  proof (cases "endswith (join [32] ws) (py '';'')")
    case True
    then have "last (join [32] ws) = 59"
      by (auto simp: endswith_def py_simps suffix_def)
    then have "last (last ws) = 59" using last_join [OF ne False] by simp
    with True assms False show ?thesis by (auto simp: ensure_semicolon_def)
  next
    case nends: False
    let ?ws' = "butlast ws @ [last ws @ [59]]"
    have "\<forall>w \<in> set ?ws'. is_word w"
      by (rule words_snoc [OF assms False]) (simp add: isspace_def)
    moreover have "ensure_semicolon (join [32] ws) = join [32] ?ws'"
      using nends join_snoc_word [OF False, of "[32]" "[59]"] by (simp add: ensure_semicolon_def py_simps)
    ultimately show ?thesis by (intro exI [of _ ?ws']) simp
  qed
qed

lemma ensure_semicolon_sublist:
  assumes "sublist p (ensure_semicolon s)" and "59 \<notin> set p"
  shows "sublist p s"
proof (cases "endswith s (py '';'')")
  case True
  with assms(1) show ?thesis by (simp add: ensure_semicolon_def)
next
  case False
  with assms(1) have "suffix p (s @ [59]) \<or> sublist p s"
    by (simp add: ensure_semicolon_def py_simps sublist_snoc)
  moreover have "p = []" if "suffix p (s @ [59])"
    using that assms(2) by (cases p rule: rev_cases) auto
  ultimately show ?thesis by auto
qed

lemma words_join_facts:
  assumes "\<forall>w \<in> set ws. is_word w" and "ws \<noteq> []"
  shows "join [32] ws \<noteq> []" and "\<not> isspace (hd (join [32] ws))" and "\<not> isspace (last (join [32] ws))"
proof -
  have ne: "\<forall>w \<in> set ws. w \<noteq> []" using assms by (auto simp: is_word_def)
  show "join [32] ws \<noteq> []" using join_eq_Nil [OF ne, of "[32]"] assms(2) by simp
  have "is_word (hd ws)" "is_word (last ws)" using assms by simp_all
  then have "\<not> isspace (hd (hd ws))" "\<not> isspace (last (last ws))"
    by (auto simp: is_word_def)
  then show "\<not> isspace (hd (join [32] ws))" "\<not> isspace (last (join [32] ws))"
    using hd_join [of ws "[32]"] last_join [OF ne assms(2), of "[32]"] assms(2) ne by simp_all
qed

lemma clean_sql_response_eq:
  "clean_sql_response x = ensure_semicolon (join [32] (split_ws (sub_line_comments (strip_fence x))))"
proof -
  let ?ws = "split_ws (sub_line_comments (strip_fence x))"
  have "\<forall>w \<in> set ?ws. is_word w" using split_ws_words by blast
  from ensure_semicolon_join [OF this] obtain ws' where
    ws': "\<forall>w \<in> set ws'. is_word w" "ws' \<noteq> []" "ensure_semicolon (join [32] ?ws) = join [32] ws'"
    by blast
  from words_join_facts [OF ws'(1,2)] have "strip (join [32] ws') = join [32] ws'"
    by (rule strip_id)
  with ws'(3) show ?thesis by (simp add: clean_sql_response_def py_simps)
qed

lemma normal_form_clean: "normal_form (clean_sql_response x)"
proof -
  let ?y = "sub_line_comments (strip_fence x)"
  let ?ws = "split_ws ?y"
  have w: "\<forall>w \<in> set ?ws. is_word w" using split_ws_words by blast
  from ensure_semicolon_join [OF this] obtain ws' where
    ws': "\<forall>w \<in> set ws'. is_word w" "ws' \<noteq> []" "ensure_semicolon (join [32] ?ws) = join [32] ws'"
      "last (last ws') = 59"
    by blast
  have z: "clean_sql_response x = join [32] ws'"
    using ws'(3) by (simp add: clean_sql_response_eq)
  have ne: "\<forall>w \<in> set ws'. w \<noteq> []" using ws'(1) by (auto simp: is_word_def)
  have "join [32] ws' \<noteq> []" using words_join_facts(1) [OF ws'(1,2)] .
  moreover have "last (join [32] ws') = 59" using last_join [OF ne ws'(2)] ws'(4) by simp
  ultimately have e: "endswith (join [32] ws') [59]"
    by (metis append_butlast_last_id endswith_def suffix_def)
  have d: "\<not> sublist [45, 45] (clean_sql_response x)"
  proof
    assume "sublist [45, 45] (clean_sql_response x)"
    then have "sublist [45, 45] (join [32] ?ws)"
      using ensure_semicolon_sublist [of "[45, 45]"] by (simp add: clean_sql_response_eq)
    then have "sublist [45, 45] ?y"
      using sublist_join_split [of "[45, 45]" ?y] by simp
    then show False using sub_line_comments_no_dashes by blast
  qed
  have "join [32] (split_ws (join [32] ws')) = join [32] ws'"
    using split_ws_join [OF ws'(1)] by simp
  with e d z show ?thesis by (simp add: normal_form_def py_simps)
qed

lemma normal_form_fixed: assumes "normal_form z" shows "clean_sql_response z = z"
proof -
  from assms have e: "suffix [59] z" and d: "\<not> sublist [45, 45] z" and j: "join [32] (split_ws z) = z"
    by (simp_all add: normal_form_def py_simps endswith_def)
  from e have "\<not> suffix [96, 96, 96] z"
    by (auto simp: suffix_def)
  then have "strip_fence z = z" by (simp add: strip_fence_def endswith_def py_simps)
  moreover have "sub_line_comments z = z" using d by (rule sub_line_comments_id)
  moreover have "ensure_semicolon z = z" using e by (simp add: ensure_semicolon_def endswith_def py_simps)
  ultimately show ?thesis using j by (simp add: clean_sql_response_eq)
qed

subsection \<open>Evaluation on concrete texts\<close>

lemmas eval_simps =
  py_def startswith_def endswith_def suffix_def slice_from_to_end_def strip_def isspace_def
  split_ws_Nil split_ws_space split_ws_word ensure_semicolon_def strip_fence_def
  clean_sql_response_def sub_line_comments.simps(3)

subsection \<open>Sessions and streams\<close>

lemma answer_question_closes: "open_sessions (snd (answer_question a q)) = 0"
  by (simp add: answer_question_def answer_question_try_def open_sessions_def
      split: sum.split exn.split)

lemma answer_question_stream_closes: "open_sessions (snd (answer_question_stream a q)) = 0"
  by (simp add: answer_question_stream_def open_sessions_def split: sum.split)

lemma visualize_data_closes: "open_sessions (snd (visualize_data a q t)) = 0"
  by (simp add: visualize_data_def visualize_data_try_def open_sessions_def
      split: sum.split prod.split)

lemma clean_answer_leak:
  assumes "generate_sql_query (llm_helper a) q SCHEMA_INFO = Inr sql"
    and "\<not> startswith sql (py ''Error'')"
    and "execute a sql = Inl e"
  shows "clean_answer a q =
     (py ''Error processing request: '' @ e, [Generate_sql, Session_open, Session_execute sql])"
    and "open_sessions (snd (clean_answer a q)) = 1"
  using assms by (simp_all add: clean_answer_def open_sessions_def)

lemma set_columns_of: "set (columns_of rows) = (\<Union>r \<in> set rows. fst ` set r)"
  by (simp add: columns_of_def)

lemma split_ws_tokens:
  "\<forall>w \<in> set ws. is_word w \<Longrightarrow> split_ws (concat (map (\<lambda>w. w @ [32]) ws)) = ws"
proof (induction ws)
  case Nil
  show ?case by (simp add: split_ws_Nil)
next
  case (Cons w ws)
  then have w: "is_word w" and rest: "split_ws (concat (map (\<lambda>w. w @ [32]) ws)) = ws" by simp_all
  have "split_ws (w @ 32 # concat (map (\<lambda>w. w @ [32]) ws))
      = w # split_ws (32 # concat (map (\<lambda>w. w @ [32]) ws))"
    by (rule split_ws_word_append [OF w]) (simp add: isspace_def)
  also have "split_ws (32 # concat (map (\<lambda>w. w @ [32]) ws)) = split_ws (concat (map (\<lambda>w. w @ [32]) ws))"
    by (rule split_ws_space) (simp add: isspace_def)
  finally show ?case using rest by simp
qed

subsection \<open>The spacing of joined words\<close>

lemma join_spaces:
  "\<forall>w \<in> set ws. is_word w \<Longrightarrow> c \<in> set (join [32] ws) \<Longrightarrow> isspace c \<Longrightarrow> c = 32"
  by (induction "[32::nat]" ws rule: join.induct) (auto simp: is_word_def)

lemma join_no_double_space:
  "\<forall>w \<in> set ws. is_word w \<Longrightarrow> \<not> sublist [32, 32] (join [32] ws)"
proof (induction "[32::nat]" ws rule: join.induct)
  case 1
  show ?case by simp
next
  case (2 x)
  have "isspace 32" by (simp add: isspace_def)
  with 2 have "32 \<notin> set x" by (auto simp: is_word_def)
  moreover have "32 \<in> set x" if "sublist [32, 32] x"
    using set_mono_sublist [OF that] by simp
  ultimately show ?case by auto
next
  case (3 x y ys)
  have sp: "isspace 32" by (simp add: isspace_def)
  from 3 have x: "32 \<notin> set x" and y: "is_word y" using sp by (auto simp: is_word_def)
  let ?r = "join [32] (y # ys)"
  have ne: "\<forall>w \<in> set (y # ys). w \<noteq> []" using 3(2) by (auto simp: is_word_def)
  have rne: "?r \<noteq> []" using join_eq_Nil [OF ne, of "[32]"] by simp
  have "hd ?r = hd y" using hd_join [of "y # ys" "[32]"] y by (simp add: is_word_def)
  with y sp have hd: "hd ?r \<noteq> 32" by (cases y) (auto simp: is_word_def)
  have ih: "\<not> sublist [32, 32] ?r" using 3 by simp
  show ?case
  proof
    assume "sublist [32, 32] (join [32] (x # y # ys))"
    then have "sublist [32, 32] (x @ 32 # ?r)" by simp
    then consider "sublist [32, 32] x" | "sublist [32, 32] (32 # ?r)"
      | p1 p2 where "[32, 32] = p1 @ p2" "suffix p1 x" "prefix p2 (32 # ?r)" "p1 \<noteq> []"
      by (auto simp: sublist_append) (metis append_Nil prefix_imp_sublist)
    then show False
    proof cases
      case 1
      from set_mono_sublist [OF this] x show False by simp
    next
      case 2
      then have "prefix [32, 32] (32 # ?r) \<or> sublist [32, 32] ?r"
        by (simp add: sublist_Cons_right)
      with ih have "prefix [32] ?r" by simp
      with rne hd show False by (cases ?r) auto
    next
      case 3
      from 3(1,4) have "32 \<in> set p1" by (cases p1) auto
      moreover from 3(2) have "set p1 \<subseteq> set x" by (auto simp: suffix_def)
      ultimately show False using x by auto
    qed
  qed
qed

subsection \<open>Frames\<close>

lemma sorted_date_column:
  "sorted_wrt date_le df \<Longrightarrow> sorted_wrt stamp_le (column df (py ''date''))"
  by (simp add: column_def sorted_wrt_map date_le_def [abs_def])

lemmas frame_simps = columns_of_def column_def cell_def assign_date_def sorted_by_date_def
  date_le_def select_number_columns_def number_dtype_def py_def

subsection \<open>Removing the enclosing fence\<close>

lemma strip_sublist: "sublist p (strip s) \<Longrightarrow> sublist p s"
proof -
  assume a: "sublist p (strip s)"
  have "sublist (strip s) (dropWhile isspace s)"
    unfolding strip_def
    by (metis sublist_dropWhile sublist_rev_left)
  then have "sublist (strip s) s"
    using sublist_dropWhile sublist_order.order_trans by blast
  with a show ?thesis
    using sublist_order.order_trans by blast
qed

lemma slice_enclosed:
  "length p = m \<Longrightarrow> length e = n \<Longrightarrow> slice_from_to_end m n (p @ b @ e) = b"
  by (auto simp: slice_from_to_end_def)

lemma strip_fence_sql:
  "strip_fence (py ''```sql'' @ b @ py ''```'') = strip b"
proof -
  have "slice_from_to_end 6 3 (py ''```sql'' @ b @ py ''```'') = b"
    by (rule slice_enclosed) (simp_all add: py_def)
  moreover have "startswith (py ''```sql'' @ b @ py ''```'') (py ''```sql'')"
    by (simp add: startswith_def)
  moreover have "endswith (py ''```sql'' @ b @ py ''```'') (py ''```'')"
    by (simp add: endswith_def suffix_def)
  ultimately show ?thesis by (simp add: strip_fence_def)
qed

lemma not_sql_prefix:
  assumes "\<not> prefix [115, 113, 108] b"
  shows "\<not> prefix [115, 113, 108 :: nat] (b @ [96, 96, 96])"
proof
  assume "prefix [115, 113, 108 :: nat] (b @ [96, 96, 96])"
  with assms obtain us where us: "[115, 113, 108] = b @ us" "prefix us [96, 96, 96 :: nat]"
    by (auto simp: prefix_append)
  from us(1) assms have "us \<noteq> []" by auto
  with us(1) have "last us = 108"
    by (metis last_appendR last.simps list.distinct(1))
  moreover from us(2) have "set us \<subseteq> {96}"
    using set_mono_prefix by fastforce
  ultimately show False using \<open>us \<noteq> []\<close> last_in_set by fastforce
qed

lemma strip_fence_plain:
  assumes "\<not> startswith b (py ''sql'')"
  shows "strip_fence (py ''```'' @ b @ py ''```'') = strip b"
proof -
  have "slice_from_to_end 3 3 (py ''```'' @ b @ py ''```'') = b"
    by (rule slice_enclosed) (simp_all add: py_def)
  moreover have "startswith (py ''```'' @ b @ py ''```'') (py ''```'')"
    by (simp add: startswith_def)
  moreover have "endswith (py ''```'' @ b @ py ''```'') (py ''```'')"
    by (simp add: endswith_def suffix_def)
  moreover have "\<not> startswith (py ''```'' @ b @ py ''```'') (py ''```sql'')"
    using not_sql_prefix [of b] assms by (simp add: startswith_def py_def)
  ultimately show ?thesis by (simp add: strip_fence_def)
qed

lemma strip_fence_none: "\<not> sublist (py ''```'') x \<Longrightarrow> strip_fence x = x"
  by (auto simp: strip_fence_def endswith_def)

lemma clean_sql_response_fence_free:
  assumes "\<not> sublist (py ''```'') (strip_fence x)"
  shows "\<not> sublist (py ''```'') (clean_sql_response x)"
proof
  let ?y = "sub_line_comments (strip_fence x)"
  assume "sublist (py ''```'') (clean_sql_response x)"
  then have "sublist [96, 96, 96] (ensure_semicolon (join [32] (split_ws ?y)))"
    by (simp add: clean_sql_response_eq py_simps)
  then have "sublist [96, 96, 96] (join [32] (split_ws ?y))"
    by (rule ensure_semicolon_sublist) simp
  then have "sublist [96, 96, 96] ?y"
    by (rule sublist_join_split) simp_all
  then have "sublist [96, 96, 96] (strip_fence x)"
    by (rule sub_line_comments_sublist) simp
  with assms show False by (simp add: py_simps)
qed

subsection \<open>The hint and the automatic choice\<close>

lemma visualize_data_hint:
  assumes "choose_chart_type h (columns_of rows) (length rows) = t" and "t \<noteq> []"
    and "generate_sql_query (llm_helper a) q SCHEMA_INFO = Inr sql"
    and "\<not> startswith sql (py ''Error'')"
    and "execute a sql = Inr rows"
  shows "visualize_data a q h = visualize_data a q (Some t)"
  using assms by (simp add: visualize_data_def visualize_data_try_def choose_chart_type_def)

section \<open>The claims\<close>

text \<open>
  C1. Sanitising is idempotent: for every raw model text \<open>x\<close>, applying
  \<open>_clean_sql_response\<close> to its own output gives that output again.
\<close>

theorem clean_sql_response_idempotent:
  "clean_sql_response (clean_sql_response x) = clean_sql_response x"
  by (rule normal_form_fixed [OF normal_form_clean])

text \<open>
  C2, as the specification states it: for every raw model text the output ends with
  \<open>;\<close>, holds no markdown fence, no line comment, and only single spaces.  The fence part
  fails on a text that starts with prose: the fence after the prose stays in the output.
\<close>

theorem clean_sql_response_keeps_inner_fence:
  "sublist (py ''```'') (clean_sql_response (py ''Query: ```SELECT 1```''))"
proof -
  have "clean_sql_response (py ''Query: ```SELECT 1```'') = py ''Query: ```SELECT 1```;''"
    by (simp add: eval_simps)
  also have "\<dots> = py ''Query: '' @ py ''```'' @ py ''SELECT 1```;''"
    by (simp add: py_def)
  finally show ?thesis by simp
qed

text \<open>
  C2, amended.  For every raw model text \<open>x\<close> the output ends with \<open>;\<close>, holds no \<open>--\<close>,
  and its only whitespace is the single space: no other whitespace code point, no two
  spaces in a row, none at either end.  When \<open>x\<close> holds no fence marker, neither does the
  output.  When \<open>x\<close> is a body \<open>b\<close> enclosed in fence markers, \<open>```sql\<close> or \<open>```\<close> as its
  very first code points and \<open>```\<close> as its very last, both markers are removed: the output
  is \<open>b\<close> stripped, freed of its line comments, single-spaced and terminated, and it holds
  no fence marker when \<open>b\<close> holds none.
\<close>

theorem clean_sql_response_shape:
  "endswith (clean_sql_response x) (py '';'') \<and>
   \<not> sublist (py ''--'') (clean_sql_response x) \<and>
   (\<forall>c \<in> set (clean_sql_response x). isspace c \<longrightarrow> c = of_char CHR '' '') \<and>
   \<not> sublist (py ''  '') (clean_sql_response x) \<and>
   \<not> isspace (hd (clean_sql_response x)) \<and>
   \<not> isspace (last (clean_sql_response x)) \<and>
   (\<not> sublist (py ''```'') x \<longrightarrow> \<not> sublist (py ''```'') (clean_sql_response x)) \<and>
   (x = py ''```sql'' @ b @ py ''```'' \<longrightarrow>
      clean_sql_response x =
        ensure_semicolon (join (py '' '') (split_ws (sub_line_comments (strip b)))) \<and>
      (\<not> sublist (py ''```'') b \<longrightarrow> \<not> sublist (py ''```'') (clean_sql_response x))) \<and>
   (x = py ''```'' @ b @ py ''```'' \<and> \<not> startswith b (py ''sql'') \<longrightarrow>
      clean_sql_response x =
        ensure_semicolon (join (py '' '') (split_ws (sub_line_comments (strip b)))) \<and>
      (\<not> sublist (py ''```'') b \<longrightarrow> \<not> sublist (py ''```'') (clean_sql_response x)))"
proof -
  let ?y = "sub_line_comments (strip_fence x)"
  let ?ws = "split_ws ?y"
  have w: "\<forall>w \<in> set ?ws. is_word w" using split_ws_words by blast
  from ensure_semicolon_join [OF this] obtain ws' where
    ws': "\<forall>w \<in> set ws'. is_word w" "ws' \<noteq> []" "ensure_semicolon (join [32] ?ws) = join [32] ws'"
    by blast
  have z: "clean_sql_response x = join [32] ws'"
    using ws'(3) by (simp add: clean_sql_response_eq)
  have nf: "normal_form (clean_sql_response x)" by (rule normal_form_clean)
  have a: "endswith (clean_sql_response x) (py '';'')" "\<not> sublist (py ''--'') (clean_sql_response x)"
    using nf by (simp_all add: normal_form_def)
  have b: "\<forall>c \<in> set (clean_sql_response x). isspace c \<longrightarrow> c = of_char CHR '' ''"
    using join_spaces [OF ws'(1)] by (auto simp: z)
  have c: "\<not> sublist (py ''  '') (clean_sql_response x)"
    using join_no_double_space [OF ws'(1)] by (simp add: z py_def)
  have d: "\<not> isspace (hd (clean_sql_response x))" "\<not> isspace (last (clean_sql_response x))"
    using words_join_facts(2,3) [OF ws'(1,2)] by (simp_all add: z)
  have e: "\<not> sublist (py ''```'') (clean_sql_response x)" if "\<not> sublist (py ''```'') x"
    using that clean_sql_response_fence_free [of x] by (simp add: strip_fence_none)
  have body: "clean_sql_response x =
        ensure_semicolon (join (py '' '') (split_ws (sub_line_comments (strip b)))) \<and>
      (\<not> sublist (py ''```'') b \<longrightarrow> \<not> sublist (py ''```'') (clean_sql_response x))"
    if s: "strip_fence x = strip b"
  proof -
    have "\<not> sublist (py ''```'') (clean_sql_response x)" if "\<not> sublist (py ''```'') b"
      using that clean_sql_response_fence_free [of x] strip_sublist [of "py ''```''" b]
      by (auto simp: s)
    then show ?thesis by (simp add: clean_sql_response_eq s py_simps)
  qed
  have f: "x = py ''```sql'' @ b @ py ''```'' \<longrightarrow>
      clean_sql_response x =
        ensure_semicolon (join (py '' '') (split_ws (sub_line_comments (strip b)))) \<and>
      (\<not> sublist (py ''```'') b \<longrightarrow> \<not> sublist (py ''```'') (clean_sql_response x))"
    using body strip_fence_sql [of b] by blast
  have g: "x = py ''```'' @ b @ py ''```'' \<and> \<not> startswith b (py ''sql'') \<longrightarrow>
      clean_sql_response x =
        ensure_semicolon (join (py '' '') (split_ws (sub_line_comments (strip b)))) \<and>
      (\<not> sublist (py ''```'') b \<longrightarrow> \<not> sublist (py ''```'') (clean_sql_response x))"
    using body strip_fence_plain [of b] by blast
  from a b c d e f g show ?thesis by blast
qed

theorem clean_sql_response_shape_witness:
  "clean_sql_response (py ''```sql'' @ py ([CHR 0x0A] @ ''SELECT  1 -- one'' @ [CHR 0x0A]) @ py ''```'')
     = py ''SELECT 1;'' \<and>
   \<not> sublist (py ''```'')
      (clean_sql_response (py ''```sql'' @ py ([CHR 0x0A] @ ''SELECT  1 -- one'' @ [CHR 0x0A]) @ py ''```'')) \<and>
   clean_sql_response (py ''```'' @ py ([CHR 0x0A] @ ''SELECT 2'' @ [CHR 0x0A]) @ py ''```'')
     = py ''SELECT 2;'' \<and>
   \<not> sublist (py ''```'')
      (clean_sql_response (py ''```'' @ py ([CHR 0x0A] @ ''SELECT 2'' @ [CHR 0x0A]) @ py ''```'')) \<and>
   \<not> sublist (py ''```'') (clean_sql_response (py ''SELECT 3'')) \<and>
   endswith (clean_sql_response (py ''SELECT 3'')) (py '';'')"
proof -
  let ?b1 = "py ([CHR 0x0A] @ ''SELECT  1 -- one'' @ [CHR 0x0A])"
  let ?b2 = "py ([CHR 0x0A] @ ''SELECT 2'' @ [CHR 0x0A])"
  have n: "\<not> sublist (py ''```'') ?b1" "\<not> sublist (py ''```'') ?b2"
    "\<not> sublist (py ''```'') (py ''SELECT 3'')" "\<not> startswith ?b2 (py ''sql'')"
    by (simp_all add: py_def sublist_Cons_right startswith_def)
  have v: "ensure_semicolon (join (py '' '') (split_ws (sub_line_comments (strip ?b1)))) = py ''SELECT 1;''"
    "ensure_semicolon (join (py '' '') (split_ws (sub_line_comments (strip ?b2)))) = py ''SELECT 2;''"
    by (simp_all add: eval_simps)
  let ?body = "\<lambda>b. ensure_semicolon (join (py '' '') (split_ws (sub_line_comments (strip b))))"
  have "clean_sql_response (py ''```sql'' @ ?b1 @ py ''```'') = ?body ?b1 \<and>
      (\<not> sublist (py ''```'') ?b1 \<longrightarrow>
         \<not> sublist (py ''```'') (clean_sql_response (py ''```sql'' @ ?b1 @ py ''```'')))"
    using clean_sql_response_shape [of "py ''```sql'' @ ?b1 @ py ''```''" ?b1] by blast
  with n(1) v(1) have 1: "clean_sql_response (py ''```sql'' @ ?b1 @ py ''```'') = py ''SELECT 1;''"
    "\<not> sublist (py ''```'') (clean_sql_response (py ''```sql'' @ ?b1 @ py ''```''))"
    by (metis, blast)
  have "clean_sql_response (py ''```'' @ ?b2 @ py ''```'') = ?body ?b2 \<and>
      (\<not> sublist (py ''```'') ?b2 \<longrightarrow>
         \<not> sublist (py ''```'') (clean_sql_response (py ''```'' @ ?b2 @ py ''```'')))"
    using clean_sql_response_shape [of "py ''```'' @ ?b2 @ py ''```''" ?b2] n(4) by blast
  with n(2) v(2) have 2: "clean_sql_response (py ''```'' @ ?b2 @ py ''```'') = py ''SELECT 2;''"
    "\<not> sublist (py ''```'') (clean_sql_response (py ''```'' @ ?b2 @ py ''```''))"
    by (metis, blast)
  from clean_sql_response_shape [of "py ''SELECT 3''"] n(3)
  have 3: "\<not> sublist (py ''```'') (clean_sql_response (py ''SELECT 3''))"
    "endswith (clean_sql_response (py ''SELECT 3'')) (py '';'')"
    by blast+
  from 1 2 3 show ?thesis by blast
qed

text \<open>
  C9. The raw backend text \<open>```sql\nSELECT * FROM product_total_sales -- all\n```\<close> is
  sanitised to exactly \<open>SELECT * FROM product_total_sales;\<close>, and with a backend that
  returns that raw text \<open>generate_sql_query\<close> returns exactly this statement, for every
  question and schema.
\<close>

theorem clean_sql_response_fenced_example:
  "clean_sql_response
     (py (''```sql'' @ [CHR 0x0A] @ ''SELECT * FROM product_total_sales -- all'' @ [CHR 0x0A] @ ''```''))
     = py ''SELECT * FROM product_total_sales;''
   \<and> generate_sql_query
       \<lparr>model = Some (\<lambda>prompt. Responds (Some
          (py (''```sql'' @ [CHR 0x0A] @ ''SELECT * FROM product_total_sales -- all'' @ [CHR 0x0A] @ ''```''))))\<rparr>
       q schema_info
     = Inr (py ''SELECT * FROM product_total_sales;'')"
  by (simp add: generate_sql_query_def generate_sql_query_try_def eval_simps)

text \<open>
  C4. Whatever the backend does, \<open>generate_sql_query\<close> and \<open>format_response\<close> return
  a text and never raise: with no model, with a backend that raises, and with a backend
  that answers \<open>None\<close> or the empty text, the text returned is the error marker, which
  starts with \<open>Error\<close> and ends with the reason; with a backend that answers a
  non-empty text it is that text sanitised (SQL) or stripped (answer).
\<close>

theorem llm_calls_never_raise:
  "(\<exists>text. generate_sql_query self q s = Inr text) \<and>
   (\<exists>text. format_response self q d = Inr text) \<and>
   (model self = None \<longrightarrow>
      generate_sql_query self q s = Inr (py ''Error generating SQL: '' @ py ''Model not initialized'') \<and>
      format_response self q d = Inr (py ''Error formatting response: '' @ py ''Model not initialized'')) \<and>
   (model self = Some g \<and> g (Sql_prompt s q) = Raises e \<longrightarrow>
      generate_sql_query self q s = Inr (py ''Error generating SQL: '' @ e)) \<and>
   (model self = Some g \<and> g (Format_prompt q d) = Raises e \<longrightarrow>
      format_response self q d = Inr (py ''Error formatting response: '' @ e)) \<and>
   (model self = Some g \<and> (g (Sql_prompt s q) = Responds None \<or> g (Sql_prompt s q) = Responds (Some [])) \<longrightarrow>
      generate_sql_query self q s = Inr (py ''Error generating SQL: '' @ py ''Empty response from model'')) \<and>
   (model self = Some g \<and> (g (Format_prompt q d) = Responds None \<or> g (Format_prompt q d) = Responds (Some [])) \<longrightarrow>
      format_response self q d = Inr (py ''Error formatting response: '' @ py ''Empty response from model'')) \<and>
   (model self = Some g \<and> g (Sql_prompt s q) = Responds (Some t) \<and> t \<noteq> [] \<longrightarrow>
      generate_sql_query self q s = Inr (clean_sql_response t)) \<and>
   (model self = Some g \<and> g (Format_prompt q d) = Responds (Some t) \<and> t \<noteq> [] \<longrightarrow>
      format_response self q d = Inr (strip t)) \<and>
   startswith (py ''Error generating SQL: '' @ e) (py ''Error'') \<and>
   startswith (py ''Error formatting response: '' @ e) (py ''Error'')"
proof -
  have total1: "\<exists>text. generate_sql_query self q s = Inr text"
    by (simp add: generate_sql_query_def split: sum.split)
  have total2: "\<exists>text. format_response self q d = Inr text"
    by (simp add: format_response_def split: sum.split)
  have pre: "startswith (py ''Error generating SQL: '' @ e) (py ''Error'')"
    "startswith (py ''Error formatting response: '' @ e) (py ''Error'')"
    by (simp_all add: startswith_def py_def)
  show ?thesis
    using total1 total2 pre
    by (auto simp: generate_sql_query_def generate_sql_query_try_def
        format_response_def format_response_try_def)
qed


theorem llm_calls_never_raise_witness:
  "generate_sql_query \<lparr>model = None\<rparr> (py ''total sales?'') SCHEMA_INFO
     = Inr (py ''Error generating SQL: Model not initialized'') \<and>
   format_response \<lparr>model = Some (\<lambda>p. Raises (py ''quota''))\<rparr> (py ''total sales?'') []
     = Inr (py ''Error formatting response: quota'') \<and>
   generate_sql_query \<lparr>model = Some (\<lambda>p. Responds (Some []))\<rparr> (py ''total sales?'') SCHEMA_INFO
     = Inr (py ''Error generating SQL: Empty response from model'') \<and>
   generate_sql_query \<lparr>model = Some (\<lambda>p. Responds (Some (py ''SELECT 1'')))\<rparr>
       (py ''total sales?'') SCHEMA_INFO
     = Inr (py ''SELECT 1;'') \<and>
   format_response \<lparr>model = Some (\<lambda>p. Responds (Some (py '' One row. '')))\<rparr> (py ''total sales?'') []
     = Inr (py ''One row.'')"
proof -
  have c: "clean_sql_response (py ''SELECT 1'') = py ''SELECT 1;''"
    "strip (py '' One row. '') = py ''One row.''"
    by (simp_all add: eval_simps)
  have ne: "py ''SELECT 1'' \<noteq> []" "py '' One row. '' \<noteq> []"
    by (simp_all add: py_def)
  from llm_calls_never_raise [where self = "\<lparr>model = None\<rparr>" and q = "py ''total sales?''" and s = SCHEMA_INFO]
  have 1: "generate_sql_query \<lparr>model = None\<rparr> (py ''total sales?'') SCHEMA_INFO
     = Inr (py ''Error generating SQL: '' @ py ''Model not initialized'')"
    by simp
  from llm_calls_never_raise [where self = "\<lparr>model = Some (\<lambda>p. Raises (py ''quota''))\<rparr>" and q = "py ''total sales?''"
      and d = "[]" and g = "\<lambda>p. Raises (py ''quota'')" and e = "py ''quota''"]
  have 2: "format_response \<lparr>model = Some (\<lambda>p. Raises (py ''quota''))\<rparr> (py ''total sales?'') []
     = Inr (py ''Error formatting response: '' @ py ''quota'')"
    by simp
  from llm_calls_never_raise [where self = "\<lparr>model = Some (\<lambda>p. Responds (Some []))\<rparr>" and q = "py ''total sales?''"
      and s = SCHEMA_INFO and g = "\<lambda>p. Responds (Some [])"]
  have 3: "generate_sql_query \<lparr>model = Some (\<lambda>p. Responds (Some []))\<rparr> (py ''total sales?'') SCHEMA_INFO
     = Inr (py ''Error generating SQL: '' @ py ''Empty response from model'')"
    by simp
  from llm_calls_never_raise [where self = "\<lparr>model = Some (\<lambda>p. Responds (Some (py ''SELECT 1'')))\<rparr>"
      and q = "py ''total sales?''" and s = SCHEMA_INFO
      and g = "\<lambda>p. Responds (Some (py ''SELECT 1''))" and t = "py ''SELECT 1''"] ne(1)
  have 4: "generate_sql_query \<lparr>model = Some (\<lambda>p. Responds (Some (py ''SELECT 1'')))\<rparr>
       (py ''total sales?'') SCHEMA_INFO = Inr (clean_sql_response (py ''SELECT 1''))"
    by simp
  from llm_calls_never_raise [where self = "\<lparr>model = Some (\<lambda>p. Responds (Some (py '' One row. '')))\<rparr>"
      and q = "py ''total sales?''" and d = "[]"
      and g = "\<lambda>p. Responds (Some (py '' One row. ''))" and t = "py '' One row. ''"] ne(2)
  have 5: "format_response \<lparr>model = Some (\<lambda>p. Responds (Some (py '' One row. '')))\<rparr>
       (py ''total sales?'') [] = Inr (strip (py '' One row. ''))"
    by simp
  from 1 2 3 4 5 c show ?thesis by (simp add: py_def)
qed

text \<open>
  C5. \<open>/query\<close>: an error marker from the SQL generator gives HTTP 400 with the marker as
  detail, before any session is opened or the formatter is called; an exception of the
  execution gives HTTP 500 with its text, and the formatter is not called; an error marker
  from the formatter gives HTTP 400 with the marker as detail; otherwise the body holds the
  question, the generated SQL, the formatted answer and the rows.
\<close>

theorem answer_question_outcomes:
  "(generate_sql_query (llm_helper a) q SCHEMA_INFO = Inr sql \<and> startswith sql (py ''Error'') \<longrightarrow>
      answer_question a q = (Inl (HTTPException 400 sql), [Generate_sql])) \<and>
   (generate_sql_query (llm_helper a) q SCHEMA_INFO = Inr sql \<and> \<not> startswith sql (py ''Error'') \<and>
    execute a sql = Inl e \<longrightarrow>
      fst (answer_question a q) = Inl (HTTPException 500 e) \<and>
      Format_response \<notin> set (snd (answer_question a q))) \<and>
   (generate_sql_query (llm_helper a) q SCHEMA_INFO = Inr sql \<and> \<not> startswith sql (py ''Error'') \<and>
    execute a sql = Inr rows \<and> format_response (llm_helper a) q rows = Inr text \<and>
    startswith text (py ''Error'') \<longrightarrow>
      fst (answer_question a q) = Inl (HTTPException 400 text)) \<and>
   (generate_sql_query (llm_helper a) q SCHEMA_INFO = Inr sql \<and> \<not> startswith sql (py ''Error'') \<and>
    execute a sql = Inr rows \<and> format_response (llm_helper a) q rows = Inr text \<and>
    \<not> startswith text (py ''Error'') \<longrightarrow>
      fst (answer_question a q) =
        Inr \<lparr>question = q, sql_query = sql, answer = text, data = rows\<rparr>)"
  by (simp add: answer_question_def answer_question_try_def)

theorem answer_question_outcomes_witness:
  "answer_question
     \<lparr>llm_helper = \<lparr>model = None\<rparr>, execute = (\<lambda>sql. Inr []),
      to_datetime = (\<lambda>vs. Inr []), sort_values = (\<lambda>c df. df), savefig = (\<lambda>calls. Inr [])\<rparr> (py ''total sales?'')
     = (Inl (HTTPException 400 (py ''Error generating SQL: Model not initialized'')), [Generate_sql]) \<and>
   fst (answer_question
     \<lparr>llm_helper = \<lparr>model = Some (\<lambda>p. Responds (Some (py ''SELEC 1'')))\<rparr>,
      execute = (\<lambda>sql. Inl (py ''syntax error'')),
      to_datetime = (\<lambda>vs. Inr []), sort_values = (\<lambda>c df. df), savefig = (\<lambda>calls. Inr [])\<rparr> (py ''total sales?''))
     = Inl (HTTPException 500 (py ''syntax error'')) \<and>
   fst (answer_question
     \<lparr>llm_helper = \<lparr>model = Some (\<lambda>p. case p of Sql_prompt s q \<Rightarrow> Responds (Some (py ''SELECT 1''))
                                          | Format_prompt q d \<Rightarrow> Raises (py ''quota''))\<rparr>,
      execute = (\<lambda>sql. Inr [[(py ''n'', VInt 1)]]),
      to_datetime = (\<lambda>vs. Inr []), sort_values = (\<lambda>c df. df), savefig = (\<lambda>calls. Inr [])\<rparr> (py ''total sales?''))
     = Inl (HTTPException 400 (py ''Error formatting response: quota'')) \<and>
   fst (answer_question
     \<lparr>llm_helper = \<lparr>model = Some (\<lambda>p. case p of Sql_prompt s q \<Rightarrow> Responds (Some (py ''SELECT 1''))
                                          | Format_prompt q d \<Rightarrow> Responds (Some (py ''One row.'')))\<rparr>,
      execute = (\<lambda>sql. Inr [[(py ''n'', VInt 1)]]),
      to_datetime = (\<lambda>vs. Inr []), sort_values = (\<lambda>c df. df), savefig = (\<lambda>calls. Inr [])\<rparr> (py ''total sales?''))
     = Inr \<lparr>question = py ''total sales?'', sql_query = py ''SELECT 1;'', answer = py ''One row.'',
            data = [[(py ''n'', VInt 1)]]\<rparr>"
proof -
  let ?q = "py ''total sales?''"
  let ?a1 = "\<lparr>llm_helper = \<lparr>model = None\<rparr>, execute = (\<lambda>sql. Inr []),
      to_datetime = (\<lambda>vs. Inr []), sort_values = (\<lambda>c df. df), savefig = (\<lambda>calls. Inr [])\<rparr>"
  let ?a2 = "\<lparr>llm_helper = \<lparr>model = Some (\<lambda>p. Responds (Some (py ''SELEC 1'')))\<rparr>,
      execute = (\<lambda>sql. Inl (py ''syntax error'')),
      to_datetime = (\<lambda>vs. Inr []), sort_values = (\<lambda>c df. df), savefig = (\<lambda>calls. Inr [])\<rparr>"
  let ?a3 = "\<lparr>llm_helper = \<lparr>model = Some (\<lambda>p. case p of Sql_prompt s q \<Rightarrow> Responds (Some (py ''SELECT 1''))
                                          | Format_prompt q d \<Rightarrow> Raises (py ''quota''))\<rparr>,
      execute = (\<lambda>sql. Inr [[(py ''n'', VInt 1)]]),
      to_datetime = (\<lambda>vs. Inr []), sort_values = (\<lambda>c df. df), savefig = (\<lambda>calls. Inr [])\<rparr>"
  let ?a4 = "\<lparr>llm_helper = \<lparr>model = Some (\<lambda>p. case p of Sql_prompt s q \<Rightarrow> Responds (Some (py ''SELECT 1''))
                                          | Format_prompt q d \<Rightarrow> Responds (Some (py ''One row.'')))\<rparr>,
      execute = (\<lambda>sql. Inr [[(py ''n'', VInt 1)]]),
      to_datetime = (\<lambda>vs. Inr []), sort_values = (\<lambda>c df. df), savefig = (\<lambda>calls. Inr [])\<rparr>"
  have g1: "generate_sql_query (llm_helper ?a1) ?q SCHEMA_INFO
      = Inr (py ''Error generating SQL: Model not initialized'')"
    by (simp add: generate_sql_query_def generate_sql_query_try_def py_def)
  have g2: "generate_sql_query (llm_helper ?a2) ?q SCHEMA_INFO = Inr (py ''SELEC 1;'')"
    by (simp add: generate_sql_query_def generate_sql_query_try_def eval_simps)
  have g3: "generate_sql_query (llm_helper ?a3) ?q SCHEMA_INFO = Inr (py ''SELECT 1;'')"
    by (simp add: generate_sql_query_def generate_sql_query_try_def eval_simps)
  have g4: "generate_sql_query (llm_helper ?a4) ?q SCHEMA_INFO = Inr (py ''SELECT 1;'')"
    by (simp add: generate_sql_query_def generate_sql_query_try_def eval_simps)
  have f3: "format_response (llm_helper ?a3) ?q [[(py ''n'', VInt 1)]]
      = Inr (py ''Error formatting response: quota'')"
    by (simp add: format_response_def format_response_try_def py_def)
  have f4: "format_response (llm_helper ?a4) ?q [[(py ''n'', VInt 1)]] = Inr (py ''One row.'')"
    by (simp add: format_response_def format_response_try_def eval_simps)
  have s: "startswith (py ''Error generating SQL: Model not initialized'') (py ''Error'')"
    "\<not> startswith (py ''SELEC 1;'') (py ''Error'')"
    "\<not> startswith (py ''SELECT 1;'') (py ''Error'')"
    "startswith (py ''Error formatting response: quota'') (py ''Error'')"
    "\<not> startswith (py ''One row.'') (py ''Error'')"
    by (simp_all add: startswith_def py_def)
  from answer_question_outcomes [of ?a1 ?q "py ''Error generating SQL: Model not initialized''"] g1 s(1)
  have 1: "answer_question ?a1 ?q
      = (Inl (HTTPException 400 (py ''Error generating SQL: Model not initialized'')), [Generate_sql])"
    by blast
  from answer_question_outcomes [of ?a2 ?q "py ''SELEC 1;''" "py ''syntax error''"] g2 s(2)
  have 2: "fst (answer_question ?a2 ?q) = Inl (HTTPException 500 (py ''syntax error''))"
    by simp
  from answer_question_outcomes [of ?a3 ?q "py ''SELECT 1;''" _ "[[(py ''n'', VInt 1)]]" "py ''Error formatting response: quota''"]
    g3 s(3) f3 s(4)
  have 3: "fst (answer_question ?a3 ?q) = Inl (HTTPException 400 (py ''Error formatting response: quota''))"
    by simp
  from answer_question_outcomes [of ?a4 ?q "py ''SELECT 1;''" _ "[[(py ''n'', VInt 1)]]" "py ''One row.''"]
    g4 s(3,5) f4
  have 4: "fst (answer_question ?a4 ?q) =
      Inr \<lparr>question = ?q, sql_query = py ''SELECT 1;'', answer = py ''One row.'',
            data = [[(py ''n'', VInt 1)]]\<rparr>"
    by simp
  from 1 2 3 4 show ?thesis by blast
qed

text \<open>
  C6, as the specification states it: without a hint, a date-like column and more than 3
  rows give \<open>line\<close>.  The code looks for a column named \<open>date\<close> only: five rows with the
  schema's \<open>eligibility_datetime_utc\<close> column give \<open>bar\<close>, and \<open>/query/visualize\<close> makes
  the bar plot.
\<close>

theorem visualize_data_other_date_column:
  "(let rows = [[(py ''eligibility_datetime_utc'', VStr (py ''2024-01-01 09:00:00'')), (py ''n'', VInt 4)],
                [(py ''eligibility_datetime_utc'', VStr (py ''2024-01-02 09:00:00'')), (py ''n'', VInt 2)],
                [(py ''eligibility_datetime_utc'', VStr (py ''2024-01-03 09:00:00'')), (py ''n'', VInt 7)],
                [(py ''eligibility_datetime_utc'', VStr (py ''2024-01-04 09:00:00'')), (py ''n'', VInt 1)],
                [(py ''eligibility_datetime_utc'', VStr (py ''2024-01-05 09:00:00'')), (py ''n'', VInt 3)]]
    in length rows = 5 \<and>
       columns_of rows = [py ''eligibility_datetime_utc'', py ''n''] \<and>
       choose_chart_type None (columns_of rows) (length rows) = py ''bar'' \<and>
       fst (visualize_data
         \<lparr>llm_helper = \<lparr>model = Some (\<lambda>p. Responds (Some (py ''SELECT 1'')))\<rparr>,
          execute = (\<lambda>sql. Inr rows),
          to_datetime = (\<lambda>vs. Inr (map (\<lambda>v. None) vs)), sort_values = (\<lambda>c df. df),
          savefig = (\<lambda>calls. Inr (map (\<lambda>c. case c of Plot_bar x y df \<Rightarrow> 66
                                               | Plot xs ys l \<Rightarrow> 76 | _ \<Rightarrow> 0) calls))\<rparr>
         (py ''eligibility by day?'') None)
       = Inr [0, 0, 66, 0, 0, 0])"
  by (simp add: Let_def choose_chart_type_def auto_chart_type_def
      visualize_data_def visualize_data_try_def generate_sql_query_def generate_sql_query_try_def
      generate_chart_def eval_simps columns_of_def)

text \<open>
  C6, amended.  When \<open>/query/visualize\<close> gets no chart-type hint (\<open>None\<close> or the empty
  text) and the generated SQL runs, it answers as it does under the hint chosen from the
  rows: \<open>line\<close> when there is a column named exactly \<open>date\<close> and more than 3 rows, else
  \<open>bar\<close> when there are at most 10 rows, else \<open>histogram\<close>.  So a \<open>date\<close> column with 5
  rows gives \<open>line\<close>, no \<open>date\<close> column with 7 rows \<open>bar\<close>, no \<open>date\<close> column with 50
  rows \<open>histogram\<close>.
\<close>

theorem visualize_data_auto_chart_type:
  assumes "generate_sql_query (llm_helper a) q SCHEMA_INFO = Inr sql"
    and "\<not> startswith sql (py ''Error'')"
    and "execute a sql = Inr rows"
  shows
   "choose_chart_type None (columns_of rows) (length rows) =
      (if py ''date'' \<in> set (columns_of rows) \<and> length rows > 3 then py ''line''
       else if length rows \<le> 10 then py ''bar'' else py ''histogram'') \<and>
    visualize_data a q None =
      visualize_data a q
        (Some (if py ''date'' \<in> set (columns_of rows) \<and> length rows > 3 then py ''line''
               else if length rows \<le> 10 then py ''bar'' else py ''histogram'')) \<and>
    fst (visualize_data a q None) =
      (case generate_chart a
              (if py ''date'' \<in> set (columns_of rows) \<and> length rows > 3 then py ''line''
               else if length rows \<le> 10 then py ''bar'' else py ''histogram'')
              (columns_of rows) rows of
         Inl e \<Rightarrow> Inl (HTTPException 500 e)
       | Inr (df, calls) \<Rightarrow>
           (case savefig a
                   ([Figure, Style_use (py ''ggplot'')] @ calls @
                    [Title (py ''Visualization: '' @ take 50 q @ py ''...''), Xticks, Tight_layout]) of
              Inl e \<Rightarrow> Inl (HTTPException 500 e)
            | Inr png \<Rightarrow> Inr png)) \<and>
    visualize_data a q (Some []) = visualize_data a q None \<and>
    (py ''date'' \<in> set (columns_of rows) \<and> length rows = 5 \<longrightarrow>
       visualize_data a q None = visualize_data a q (Some (py ''line''))) \<and>
    (py ''date'' \<notin> set (columns_of rows) \<and> length rows = 7 \<longrightarrow>
       visualize_data a q None = visualize_data a q (Some (py ''bar''))) \<and>
    (py ''date'' \<notin> set (columns_of rows) \<and> length rows = 50 \<longrightarrow>
       visualize_data a q None = visualize_data a q (Some (py ''histogram'')))"
proof -
  let ?t = "if py ''date'' \<in> set (columns_of rows) \<and> length rows > 3 then py ''line''
       else if length rows \<le> 10 then py ''bar'' else py ''histogram''"
  have t: "choose_chart_type None (columns_of rows) (length rows) = ?t"
    by (simp add: choose_chart_type_def auto_chart_type_def)
  have ne: "?t \<noteq> []" by (simp add: py_def)
  have v: "visualize_data a q None = visualize_data a q (Some ?t)"
    using t ne assms by (rule visualize_data_hint)
  have c: "fst (visualize_data a q None) =
      (case generate_chart a ?t (columns_of rows) rows of
         Inl e \<Rightarrow> Inl (HTTPException 500 e)
       | Inr (df, calls) \<Rightarrow>
           (case savefig a
                   ([Figure, Style_use (py ''ggplot'')] @ calls @
                    [Title (py ''Visualization: '' @ take 50 q @ py ''...''), Xticks, Tight_layout]) of
              Inl e \<Rightarrow> Inl (HTTPException 500 e)
            | Inr png \<Rightarrow> Inr png))"
    using assms t by (simp add: visualize_data_def visualize_data_try_def split: sum.split prod.split)
  have e: "visualize_data a q (Some []) = visualize_data a q None"
    using assms by (simp add: visualize_data_def visualize_data_try_def choose_chart_type_def)
  have 5: "visualize_data a q None = visualize_data a q (Some (py ''line''))"
    if "py ''date'' \<in> set (columns_of rows) \<and> length rows = 5"
    using v that by simp
  have 7: "visualize_data a q None = visualize_data a q (Some (py ''bar''))"
    if "py ''date'' \<notin> set (columns_of rows) \<and> length rows = 7"
    using v that by simp
  have 50: "visualize_data a q None = visualize_data a q (Some (py ''histogram''))"
    if "py ''date'' \<notin> set (columns_of rows) \<and> length rows = 50"
    using v that by simp
  from t v c e 5 7 50 show ?thesis by blast
qed

theorem visualize_data_auto_chart_type_witness:
  "visualize_data
     \<lparr>llm_helper = \<lparr>model = Some (\<lambda>p. Responds (Some (py ''SELECT 1'')))\<rparr>,
      execute = (\<lambda>sql. Inr (replicate 5 [(py ''date'', VStr (py ''2024-01-01'')), (py ''total_sales'', VFloat 2)])),
      to_datetime = (\<lambda>vs. Inr (map (\<lambda>v. None) vs)), sort_values = (\<lambda>c df. df),
      savefig = (\<lambda>calls. Inr [])\<rparr> (py ''sales by day?'') None
   = visualize_data
     \<lparr>llm_helper = \<lparr>model = Some (\<lambda>p. Responds (Some (py ''SELECT 1'')))\<rparr>,
      execute = (\<lambda>sql. Inr (replicate 5 [(py ''date'', VStr (py ''2024-01-01'')), (py ''total_sales'', VFloat 2)])),
      to_datetime = (\<lambda>vs. Inr (map (\<lambda>v. None) vs)), sort_values = (\<lambda>c df. df),
      savefig = (\<lambda>calls. Inr [])\<rparr> (py ''sales by day?'') (Some (py ''line'')) \<and>
   visualize_data
     \<lparr>llm_helper = \<lparr>model = Some (\<lambda>p. Responds (Some (py ''SELECT 1'')))\<rparr>,
      execute = (\<lambda>sql. Inr (replicate 7 [(py ''item_id'', VStr (py ''A1'')), (py ''total_sales'', VFloat 2)])),
      to_datetime = (\<lambda>vs. Inr (map (\<lambda>v. None) vs)), sort_values = (\<lambda>c df. df),
      savefig = (\<lambda>calls. Inr [])\<rparr> (py ''sales by item?'') None
   = visualize_data
     \<lparr>llm_helper = \<lparr>model = Some (\<lambda>p. Responds (Some (py ''SELECT 1'')))\<rparr>,
      execute = (\<lambda>sql. Inr (replicate 7 [(py ''item_id'', VStr (py ''A1'')), (py ''total_sales'', VFloat 2)])),
      to_datetime = (\<lambda>vs. Inr (map (\<lambda>v. None) vs)), sort_values = (\<lambda>c df. df),
      savefig = (\<lambda>calls. Inr [])\<rparr> (py ''sales by item?'') (Some (py ''bar'')) \<and>
   visualize_data
     \<lparr>llm_helper = \<lparr>model = Some (\<lambda>p. Responds (Some (py ''SELECT 1'')))\<rparr>,
      execute = (\<lambda>sql. Inr (replicate 50 [(py ''item_id'', VStr (py ''A1'')), (py ''total_sales'', VFloat 2)])),
      to_datetime = (\<lambda>vs. Inr (map (\<lambda>v. None) vs)), sort_values = (\<lambda>c df. df),
      savefig = (\<lambda>calls. Inr [])\<rparr> (py ''sales by item?'') None
   = visualize_data
     \<lparr>llm_helper = \<lparr>model = Some (\<lambda>p. Responds (Some (py ''SELECT 1'')))\<rparr>,
      execute = (\<lambda>sql. Inr (replicate 50 [(py ''item_id'', VStr (py ''A1'')), (py ''total_sales'', VFloat 2)])),
      to_datetime = (\<lambda>vs. Inr (map (\<lambda>v. None) vs)), sort_values = (\<lambda>c df. df),
      savefig = (\<lambda>calls. Inr [])\<rparr> (py ''sales by item?'') (Some (py ''histogram''))"
proof -
  let ?d = "[(py ''date'', VStr (py ''2024-01-01'')), (py ''total_sales'', VFloat 2)]"
  let ?r = "[(py ''item_id'', VStr (py ''A1'')), (py ''total_sales'', VFloat 2)]"
  let ?a = "\<lambda>rows. \<lparr>llm_helper = \<lparr>model = Some (\<lambda>p. Responds (Some (py ''SELECT 1'')))\<rparr>,
      execute = (\<lambda>sql. Inr rows),
      to_datetime = (\<lambda>vs. Inr (map (\<lambda>v. None) vs)), sort_values = (\<lambda>c df. df),
      savefig = (\<lambda>calls. Inr [])\<rparr>"
  have g: "generate_sql_query (llm_helper (?a rows)) q SCHEMA_INFO = Inr (py ''SELECT 1;'')" for rows q
    by (simp add: generate_sql_query_def generate_sql_query_try_def eval_simps)
  have s: "\<not> startswith (py ''SELECT 1;'') (py ''Error'')"
    by (simp add: startswith_def py_def)
  have e: "execute (?a rows) (py ''SELECT 1;'') = Inr rows" for rows by simp
  have d: "py ''date'' \<in> set (columns_of (replicate 5 ?d))"
    by (simp add: set_columns_of)
  have r: "py ''date'' \<notin> set (columns_of (replicate n ?r))" for n
    by (simp add: set_columns_of py_def)
  from visualize_data_auto_chart_type [OF g s e, of "replicate 5 ?d" "py ''sales by day?''"] d
  have 1: "visualize_data (?a (replicate 5 ?d)) (py ''sales by day?'') None
      = visualize_data (?a (replicate 5 ?d)) (py ''sales by day?'') (Some (py ''line''))"
    by simp
  from visualize_data_auto_chart_type [OF g s e, of "replicate 7 ?r" "py ''sales by item?''"] r
  have 2: "visualize_data (?a (replicate 7 ?r)) (py ''sales by item?'') None
      = visualize_data (?a (replicate 7 ?r)) (py ''sales by item?'') (Some (py ''bar''))"
    by simp
  from visualize_data_auto_chart_type [OF g s e, of "replicate 50 ?r" "py ''sales by item?''"] r
  have 3: "visualize_data (?a (replicate 50 ?r)) (py ''sales by item?'') None
      = visualize_data (?a (replicate 50 ?r)) (py ''sales by item?'') (Some (py ''histogram''))"
    by simp
  from 1 2 3 show ?thesis by simp
qed

text \<open>
  C7, as the specification states it: whenever the rows have a date-like column they are
  sorted by it and every numeric column other than the date is plotted as its own series.
  Three results of the code against it, under the automatic chart type: with a \<open>date\<close>
  column and two rows the chart is a bar plot of the first numeric column only, and
  \<open>total_units_ordered\<close> is not plotted; with the date-like column
  \<open>eligibility_datetime_utc\<close> the rows are charted in the order they came; with a \<open>date\<close>
  column that \<open>pd.to_datetime\<close> rejects nothing is charted.
\<close>

theorem generate_chart_date_counterexamples:
  "(let dated = [[(py ''date'', VStr (py ''2024-01-02'')), (py ''total_sales'', VFloat 5), (py ''total_units_ordered'', VInt 3)],
                 [(py ''date'', VStr (py ''2024-01-01'')), (py ''total_sales'', VFloat 2), (py ''total_units_ordered'', VInt 1)]];
        sorted = [[(py ''date'', VTimestamp 1704067200), (py ''total_sales'', VFloat 2), (py ''total_units_ordered'', VInt 1)],
                  [(py ''date'', VTimestamp 1704153600), (py ''total_sales'', VFloat 5), (py ''total_units_ordered'', VInt 3)]];
        other = [[(py ''eligibility_datetime_utc'', VStr (py ''2024-01-02 09:00:00'')), (py ''n'', VInt 3)],
                 [(py ''eligibility_datetime_utc'', VStr (py ''2024-01-01 09:00:00'')), (py ''n'', VInt 1)]];
        pandas = \<lparr>llm_helper = \<lparr>model = None\<rparr>, execute = (\<lambda>sql. Inr []),
                  to_datetime = (\<lambda>vs. Inr (map (\<lambda>v. if v = VStr (py ''2024-01-01'') then Some 1704067200
                                                   else if v = VStr (py ''2024-01-02'') then Some 1704153600
                                                   else None) vs)),
                  sort_values = (\<lambda>c df. rev df), savefig = (\<lambda>calls. Inr [])\<rparr>;
        failing = \<lparr>llm_helper = \<lparr>model = None\<rparr>, execute = (\<lambda>sql. Inr []),
                   to_datetime = (\<lambda>vs. Inl (py ''Unknown datetime string format'')),
                   sort_values = (\<lambda>c df. rev df), savefig = (\<lambda>calls. Inr [])\<rparr>
    in generate_chart pandas (choose_chart_type None (columns_of dated) (length dated)) (columns_of dated) dated
         = Inr (sorted, [Plot_bar (py ''date'') (py ''total_sales'') sorted]) \<and>
       filter (\<lambda>col. col \<noteq> py ''date'') (select_number_columns (columns_of dated) sorted)
         = [py ''total_sales'', py ''total_units_ordered''] \<and>
       generate_chart pandas (choose_chart_type None (columns_of other) (length other)) (columns_of other) other
         = Inr (other, [Plot_bar (py ''eligibility_datetime_utc'') (py ''n'') other]) \<and>
       generate_chart failing (choose_chart_type None (columns_of dated) (length dated)) (columns_of dated) dated
         = Inl (py ''Unknown datetime string format''))"
  by (simp add: Let_def generate_chart_def choose_chart_type_def auto_chart_type_def frame_simps)

text \<open>
  C7, amended.  Whenever the rows have a column named exactly \<open>date\<close>, it is converted
  with \<open>pd.to_datetime\<close>; when the conversion raises, the chart block raises and nothing is
  charted.  Otherwise the frame that is charted is \<open>df.sort_values('date')\<close> of the
  converted rows: with pandas' sort being a sort (the same rows, ascending by date, \<open>NaT\<close>
  last) the charted frame holds the same rows in ascending order of date, and so does the
  date axis.  When the chart type is \<open>line\<close>, every numeric column other than \<open>date\<close> is
  plotted as its own series against the date column, followed by the legend, and these
  are the plot calls \<open>/query/visualize\<close> hands to matplotlib; when it is \<open>bar\<close>, only the
  first numeric column is plotted against the date (\<open>IndexError\<close> when there is none);
  for any other chart type nothing is plotted.  Without a column named \<open>date\<close> the rows
  are charted as they came and no series is plotted.
\<close>

theorem generate_chart_with_date:
  "(py ''date'' \<in> set cols \<and> to_datetime a (column rows (py ''date'')) = Inl e \<longrightarrow>
      generate_chart a chart_type cols rows = Inl e) \<and>
   (py ''date'' \<in> set cols \<and> to_datetime a (column rows (py ''date'')) = Inr stamps \<and>
    sorted_by_date (assign_date stamps rows) (sort_values a (py ''date'') (assign_date stamps rows)) \<longrightarrow>
      mset (sort_values a (py ''date'') (assign_date stamps rows)) = mset (assign_date stamps rows) \<and>
      sorted_wrt date_le (sort_values a (py ''date'') (assign_date stamps rows)) \<and>
      sorted_wrt stamp_le (column (sort_values a (py ''date'') (assign_date stamps rows)) (py ''date'')) \<and>
      generate_chart a (py ''line'') cols rows =
        Inr (sort_values a (py ''date'') (assign_date stamps rows),
             map (\<lambda>col. Plot (column (sort_values a (py ''date'') (assign_date stamps rows)) (py ''date''))
                            (column (sort_values a (py ''date'') (assign_date stamps rows)) col) col)
               (filter (\<lambda>col. col \<noteq> py ''date'')
                  (select_number_columns cols (sort_values a (py ''date'') (assign_date stamps rows))))
             @ [Legend]) \<and>
      generate_chart a (py ''bar'') cols rows =
        (case select_number_columns cols (sort_values a (py ''date'') (assign_date stamps rows)) of
           [] \<Rightarrow> Inl (index_error 0 0)
         | y # other \<Rightarrow>
             Inr (sort_values a (py ''date'') (assign_date stamps rows),
                  [Plot_bar (py ''date'') y (sort_values a (py ''date'') (assign_date stamps rows))])) \<and>
      (chart_type \<noteq> py ''line'' \<and> chart_type \<noteq> py ''bar'' \<longrightarrow>
         generate_chart a chart_type cols rows =
           Inr (sort_values a (py ''date'') (assign_date stamps rows), []))) \<and>
   (py ''date'' \<notin> set cols \<and> generate_chart a chart_type cols rows = Inr (df, calls) \<longrightarrow>
      df = rows \<and> (\<forall>c \<in> set calls. case c of Plot xs ys l \<Rightarrow> False | _ \<Rightarrow> True)) \<and>
   (generate_sql_query (llm_helper a) q SCHEMA_INFO = Inr sql \<and> \<not> startswith sql (py ''Error'') \<and>
    execute a sql = Inr rows \<and> cols = columns_of rows \<and> py ''date'' \<in> set cols \<and>
    to_datetime a (column rows (py ''date'')) = Inr stamps \<longrightarrow>
      fst (visualize_data a q (Some (py ''line''))) =
        (case savefig a
                ([Figure, Style_use (py ''ggplot'')] @
                 map (\<lambda>col. Plot (column (sort_values a (py ''date'') (assign_date stamps rows)) (py ''date''))
                                (column (sort_values a (py ''date'') (assign_date stamps rows)) col) col)
                   (filter (\<lambda>col. col \<noteq> py ''date'')
                      (select_number_columns cols (sort_values a (py ''date'') (assign_date stamps rows)))) @
                 [Legend, Title (py ''Visualization: '' @ take 50 q @ py ''...''), Xticks, Tight_layout]) of
           Inl e \<Rightarrow> Inl (HTTPException 500 e)
         | Inr png \<Rightarrow> Inr png))"
proof -
  let ?df = "sort_values a (py ''date'') (assign_date stamps rows)"
  have nb: "py ''line'' \<noteq> py ''bar''" "py ''line'' \<noteq> []" by (simp_all add: py_def)
  have fail: "generate_chart a chart_type cols rows = Inl e"
    if "py ''date'' \<in> set cols \<and> to_datetime a (column rows (py ''date'')) = Inl e"
    using that by (simp add: generate_chart_def)
  have dated: "mset ?df = mset (assign_date stamps rows) \<and>
      sorted_wrt date_le ?df \<and>
      sorted_wrt stamp_le (column ?df (py ''date'')) \<and>
      generate_chart a (py ''line'') cols rows =
        Inr (?df, map (\<lambda>col. Plot (column ?df (py ''date'')) (column ?df col) col)
               (filter (\<lambda>col. col \<noteq> py ''date'') (select_number_columns cols ?df)) @ [Legend]) \<and>
      generate_chart a (py ''bar'') cols rows =
        (case select_number_columns cols ?df of
           [] \<Rightarrow> Inl (index_error 0 0)
         | y # other \<Rightarrow> Inr (?df, [Plot_bar (py ''date'') y ?df])) \<and>
      (chart_type \<noteq> py ''line'' \<and> chart_type \<noteq> py ''bar'' \<longrightarrow>
         generate_chart a chart_type cols rows = Inr (?df, []))"
    if h: "py ''date'' \<in> set cols \<and> to_datetime a (column rows (py ''date'')) = Inr stamps \<and>
      sorted_by_date (assign_date stamps rows) ?df"
  proof -
    from h have m: "mset ?df = mset (assign_date stamps rows)" and s: "sorted_wrt date_le ?df"
      by (simp_all add: sorted_by_date_def)
    from s have c: "sorted_wrt stamp_le (column ?df (py ''date''))"
      by (rule sorted_date_column)
    from h nb m s c show ?thesis
      by (simp add: generate_chart_def Let_def)
  qed
  have plain: "df = rows \<and> (\<forall>c \<in> set calls. case c of Plot xs ys l \<Rightarrow> False | _ \<Rightarrow> True)"
    if "py ''date'' \<notin> set cols \<and> generate_chart a chart_type cols rows = Inr (df, calls)"
    using that by (auto simp: generate_chart_def split: list.splits if_splits)
  have pipe: "fst (visualize_data a q (Some (py ''line''))) =
        (case savefig a
                ([Figure, Style_use (py ''ggplot'')] @
                 map (\<lambda>col. Plot (column ?df (py ''date'')) (column ?df col) col)
                   (filter (\<lambda>col. col \<noteq> py ''date'') (select_number_columns cols ?df)) @
                 [Legend, Title (py ''Visualization: '' @ take 50 q @ py ''...''), Xticks, Tight_layout]) of
           Inl e \<Rightarrow> Inl (HTTPException 500 e)
         | Inr png \<Rightarrow> Inr png)"
    if h: "generate_sql_query (llm_helper a) q SCHEMA_INFO = Inr sql \<and> \<not> startswith sql (py ''Error'') \<and>
      execute a sql = Inr rows \<and> cols = columns_of rows \<and> py ''date'' \<in> set cols \<and>
      to_datetime a (column rows (py ''date'')) = Inr stamps"
  proof -
    from h have d: "py ''date'' \<in> set (columns_of rows)" and c: "cols = columns_of rows"
      and t: "to_datetime a (column rows (py ''date'')) = Inr stamps"
      by blast+
    from d t have g: "generate_chart a (py ''line'') (columns_of rows) rows =
        Inr (?df, map (\<lambda>col. Plot (column ?df (py ''date'')) (column ?df col) col)
               (filter (\<lambda>col. col \<noteq> py ''date'') (select_number_columns cols ?df)) @ [Legend])"
      by (simp add: generate_chart_def Let_def c)
    from h nb(2) show ?thesis
      by (simp add: visualize_data_def visualize_data_try_def choose_chart_type_def g
          split: sum.split)
  qed
  from fail dated plain pipe show ?thesis by blast
qed

theorem generate_chart_with_date_witness:
  "(let dated = [[(py ''date'', VStr (py ''2024-01-02'')), (py ''total_sales'', VFloat 5), (py ''total_units_ordered'', VInt 3)],
                 [(py ''date'', VStr (py ''2024-01-01'')), (py ''total_sales'', VFloat 2), (py ''total_units_ordered'', VInt 1)]];
        sorted = [[(py ''date'', VTimestamp 1704067200), (py ''total_sales'', VFloat 2), (py ''total_units_ordered'', VInt 1)],
                  [(py ''date'', VTimestamp 1704153600), (py ''total_sales'', VFloat 5), (py ''total_units_ordered'', VInt 3)]];
        other = [[(py ''eligibility_datetime_utc'', VStr (py ''2024-01-02 09:00:00'')), (py ''n'', VInt 3)],
                 [(py ''eligibility_datetime_utc'', VStr (py ''2024-01-01 09:00:00'')), (py ''n'', VInt 1)]];
        pandas = \<lparr>llm_helper = \<lparr>model = Some (\<lambda>p. Responds (Some (py ''SELECT 1'')))\<rparr>,
                  execute = (\<lambda>sql. Inr dated),
                  to_datetime = (\<lambda>vs. Inr (map (\<lambda>v. if v = VStr (py ''2024-01-01'') then Some 1704067200
                                                   else if v = VStr (py ''2024-01-02'') then Some 1704153600
                                                   else None) vs)),
                  sort_values = (\<lambda>c df. rev df),
                  savefig = (\<lambda>calls. Inr (map (\<lambda>c. case c of Plot_bar x y df \<Rightarrow> 66
                                                       | Plot xs ys l \<Rightarrow> 76 | _ \<Rightarrow> 0) calls))\<rparr>;
        failing = \<lparr>llm_helper = \<lparr>model = None\<rparr>, execute = (\<lambda>sql. Inr []),
                   to_datetime = (\<lambda>vs. Inl (py ''Unknown datetime string format'')),
                   sort_values = (\<lambda>c df. rev df), savefig = (\<lambda>calls. Inr [])\<rparr>
    in sorted_wrt date_le sorted \<and>
       generate_chart pandas (py ''line'') (columns_of dated) dated
         = Inr (sorted,
                [Plot [VTimestamp 1704067200, VTimestamp 1704153600] [VFloat 2, VFloat 5] (py ''total_sales''),
                 Plot [VTimestamp 1704067200, VTimestamp 1704153600] [VInt 1, VInt 3] (py ''total_units_ordered''),
                 Legend]) \<and>
       generate_chart failing (py ''line'') (columns_of dated) dated
         = Inl (py ''Unknown datetime string format'') \<and>
       fst (visualize_data pandas (py ''sales by day?'') (Some (py ''line''))) = Inr [0, 0, 76, 76, 0, 0, 0, 0])"
proof -
  let ?R = "[[(py ''date'', VStr (py ''2024-01-02'')), (py ''total_sales'', VFloat 5), (py ''total_units_ordered'', VInt 3)],
             [(py ''date'', VStr (py ''2024-01-01'')), (py ''total_sales'', VFloat 2), (py ''total_units_ordered'', VInt 1)]]"
  let ?DF = "[[(py ''date'', VTimestamp 1704067200), (py ''total_sales'', VFloat 2), (py ''total_units_ordered'', VInt 1)],
              [(py ''date'', VTimestamp 1704153600), (py ''total_sales'', VFloat 5), (py ''total_units_ordered'', VInt 3)]]"
  let ?A = "\<lparr>llm_helper = \<lparr>model = Some (\<lambda>p. Responds (Some (py ''SELECT 1'')))\<rparr>,
                  execute = (\<lambda>sql. Inr ?R),
                  to_datetime = (\<lambda>vs. Inr (map (\<lambda>v. if v = VStr (py ''2024-01-01'') then Some 1704067200
                                                   else if v = VStr (py ''2024-01-02'') then Some 1704153600
                                                   else None) vs)),
                  sort_values = (\<lambda>c df. rev df),
                  savefig = (\<lambda>calls. Inr (map (\<lambda>c. case c of Plot_bar x y df \<Rightarrow> 66
                                                       | Plot xs ys l \<Rightarrow> 76 | _ \<Rightarrow> 0) calls))\<rparr>"
  let ?F = "\<lparr>llm_helper = \<lparr>model = None\<rparr>, execute = (\<lambda>sql. Inr []),
                   to_datetime = (\<lambda>vs. Inl (py ''Unknown datetime string format'')),
                   sort_values = (\<lambda>c df. rev df), savefig = (\<lambda>calls. Inr [])\<rparr>"
  let ?stamps = "[Some 1704153600, Some (1704067200 :: int)]"
  let ?q = "py ''sales by day?''"
  have cols: "columns_of ?R = [py ''date'', py ''total_sales'', py ''total_units_ordered'']"
    by (simp add: frame_simps)
  have date: "py ''date'' \<in> set (columns_of ?R)"
    by (simp add: cols)
  have conv: "to_datetime ?A (column ?R (py ''date'')) = Inr ?stamps"
    by (simp add: frame_simps)
  have srt: "sort_values ?A (py ''date'') (assign_date ?stamps ?R) = ?DF"
    by (simp add: frame_simps)
  have ok: "sorted_by_date (assign_date ?stamps ?R) (sort_values ?A (py ''date'') (assign_date ?stamps ?R))"
    by (simp add: frame_simps)
  have nums: "select_number_columns (columns_of ?R) ?DF = [py ''total_sales'', py ''total_units_ordered'']"
    by (simp add: frame_simps)
  have series: "map (\<lambda>col. Plot (column ?DF (py ''date'')) (column ?DF col) col)
        (filter (\<lambda>col. col \<noteq> py ''date'') [py ''total_sales'', py ''total_units_ordered''])
      = [Plot [VTimestamp 1704067200, VTimestamp 1704153600] [VFloat 2, VFloat 5] (py ''total_sales''),
         Plot [VTimestamp 1704067200, VTimestamp 1704153600] [VInt 1, VInt 3] (py ''total_units_ordered'')]"
    by (simp add: column_def cell_def py_def)
  have fconv: "to_datetime ?F (column ?R (py ''date'')) = Inl (py ''Unknown datetime string format'')"
    by simp
  have g: "generate_sql_query (llm_helper ?A) ?q SCHEMA_INFO = Inr (py ''SELECT 1;'')"
    by (simp add: generate_sql_query_def generate_sql_query_try_def eval_simps)
  have s: "\<not> startswith (py ''SELECT 1;'') (py ''Error'')"
    by (simp add: startswith_def py_def)
  have e: "execute ?A (py ''SELECT 1;'') = Inr ?R" by simp
  note inst = generate_chart_with_date [where a = "?A" and cols = "columns_of ?R" and rows = "?R" and stamps = "?stamps"
      and q = "?q" and sql = "py ''SELECT 1;''"]
  from inst date conv ok
  have 1: "sorted_wrt date_le (sort_values ?A (py ''date'') (assign_date ?stamps ?R))"
    and 2: "generate_chart ?A (py ''line'') (columns_of ?R) ?R =
        Inr (sort_values ?A (py ''date'') (assign_date ?stamps ?R),
             map (\<lambda>col. Plot (column (sort_values ?A (py ''date'') (assign_date ?stamps ?R)) (py ''date''))
                            (column (sort_values ?A (py ''date'') (assign_date ?stamps ?R)) col) col)
               (filter (\<lambda>col. col \<noteq> py ''date'')
                  (select_number_columns (columns_of ?R) (sort_values ?A (py ''date'') (assign_date ?stamps ?R))))
             @ [Legend])"
    by blast+
  from generate_chart_with_date [where a = "?F" and cols = "columns_of ?R" and rows = "?R"
      and e = "py ''Unknown datetime string format''" and chart_type = "py ''line''"] date fconv
  have 3: "generate_chart ?F (py ''line'') (columns_of ?R) ?R = Inl (py ''Unknown datetime string format'')"
    by blast
  from inst g s e date conv
  have 4: "fst (visualize_data ?A ?q (Some (py ''line''))) =
        (case savefig ?A
                ([Figure, Style_use (py ''ggplot'')] @
                 map (\<lambda>col. Plot (column (sort_values ?A (py ''date'') (assign_date ?stamps ?R)) (py ''date''))
                                (column (sort_values ?A (py ''date'') (assign_date ?stamps ?R)) col) col)
                   (filter (\<lambda>col. col \<noteq> py ''date'')
                      (select_number_columns (columns_of ?R) (sort_values ?A (py ''date'') (assign_date ?stamps ?R)))) @
                 [Legend, Title (py ''Visualization: '' @ take 50 ?q @ py ''...''), Xticks, Tight_layout]) of
           Inl e \<Rightarrow> Inl (HTTPException 500 e)
         | Inr png \<Rightarrow> Inr png)"
    by blast
  have s1: "sorted_wrt date_le ?DF" using 1 unfolding srt .
  have s2: "generate_chart ?A (py ''line'') (columns_of ?R) ?R
      = Inr (?DF,
                [Plot [VTimestamp 1704067200, VTimestamp 1704153600] [VFloat 2, VFloat 5] (py ''total_sales''),
                 Plot [VTimestamp 1704067200, VTimestamp 1704153600] [VInt 1, VInt 3] (py ''total_units_ordered''),
                 Legend])"
    using 2 unfolding srt nums series by simp
  have s4: "fst (visualize_data ?A ?q (Some (py ''line''))) = Inr [0, 0, 76, 76, 0, 0, 0, 0]"
    using 4 unfolding srt nums series by simp
  from s1 s2 3 s4 show ?thesis by (simp add: Let_def)
qed

text \<open>
  C8. For a successful streaming request (the generator and the formatter return no error
  marker and the execution does not raise) the chunks are exactly the line
  \<open>Generated SQL: <sql>\n\n\<close> followed by the words of the formatted answer, each with one
  space after it, in their order; the tokens without that space are the words of the
  answer, and joined by single spaces, or read off the concatenated chunks, they give the
  word sequence of the answer again.
\<close>

theorem answer_question_stream_chunks:
  assumes "generate_sql_query (llm_helper a) q SCHEMA_INFO = Inr sql"
    and "\<not> startswith sql (py ''Error'')"
    and "execute a sql = Inr rows"
    and "format_response (llm_helper a) q rows = Inr text"
    and "\<not> startswith text (py ''Error'')"
  shows "fst (answer_question_stream a q) =
      (py ''Generated SQL: '' @ sql @ py [CHR 0x0A, CHR 0x0A]) #
        map (\<lambda>word. word @ py '' '') (split_ws text) \<and>
    map butlast (tl (fst (answer_question_stream a q))) = split_ws text \<and>
    split_ws (join (py '' '') (map butlast (tl (fst (answer_question_stream a q))))) = split_ws text \<and>
    split_ws (concat (tl (fst (answer_question_stream a q)))) = split_ws text"
proof -
  have w: "\<forall>w \<in> set (split_ws text). is_word w" using split_ws_words by blast
  have chunks: "fst (answer_question_stream a q) =
      (py ''Generated SQL: '' @ sql @ py [CHR 0x0A, CHR 0x0A]) #
        map (\<lambda>word. word @ py '' '') (split_ws text)"
    using assms by (simp add: answer_question_stream_def py_def)
  then have tokens: "map butlast (tl (fst (answer_question_stream a q))) = split_ws text"
    by (simp add: py_def comp_def)
  have joined: "split_ws (join (py '' '') (map butlast (tl (fst (answer_question_stream a q))))) = split_ws text"
    using split_ws_join [OF w] by (simp add: tokens py_simps)
  have glued: "split_ws (concat (tl (fst (answer_question_stream a q)))) = split_ws text"
    using split_ws_tokens [OF w] by (simp add: chunks py_simps)
  from chunks tokens joined glued show ?thesis by blast
qed

theorem answer_question_stream_chunks_witness:
  "fst (answer_question_stream
     \<lparr>llm_helper = \<lparr>model = Some (\<lambda>p. case p of Sql_prompt s q \<Rightarrow> Responds (Some (py ''SELECT 1''))
                                          | Format_prompt q d \<Rightarrow> Responds (Some (py ''One  row.'')))\<rparr>,
      execute = (\<lambda>sql. Inr [[(py ''n'', VInt 1)]]),
      to_datetime = (\<lambda>vs. Inr []), sort_values = (\<lambda>c df. df), savefig = (\<lambda>calls. Inr [])\<rparr> (py ''total sales?''))
     = [py (''Generated SQL: SELECT 1;'' @ [CHR 0x0A, CHR 0x0A]), py ''One '', py ''row. ''] \<and>
   split_ws (py ''One  row.'') = [py ''One'', py ''row.'']"
proof -
  let ?q = "py ''total sales?''"
  let ?a = "\<lparr>llm_helper = \<lparr>model = Some (\<lambda>p. case p of Sql_prompt s q \<Rightarrow> Responds (Some (py ''SELECT 1''))
                                          | Format_prompt q d \<Rightarrow> Responds (Some (py ''One  row.'')))\<rparr>,
      execute = (\<lambda>sql. Inr [[(py ''n'', VInt 1)]]),
      to_datetime = (\<lambda>vs. Inr []), sort_values = (\<lambda>c df. df), savefig = (\<lambda>calls. Inr [])\<rparr>"
  have g: "generate_sql_query (llm_helper ?a) ?q SCHEMA_INFO = Inr (py ''SELECT 1;'')"
    by (simp add: generate_sql_query_def generate_sql_query_try_def eval_simps)
  have f: "format_response (llm_helper ?a) ?q [[(py ''n'', VInt 1)]] = Inr (py ''One  row.'')"
    by (simp add: format_response_def format_response_try_def eval_simps)
  have e: "execute ?a (py ''SELECT 1;'') = Inr [[(py ''n'', VInt 1)]]" by simp
  have s: "\<not> startswith (py ''SELECT 1;'') (py ''Error'')"
    "\<not> startswith (py ''One  row.'') (py ''Error'')"
    by (simp_all add: startswith_def py_def)
  have w: "split_ws (py ''One  row.'') = [py ''One'', py ''row.'']"
    by (simp add: eval_simps)
  from answer_question_stream_chunks [OF g s(1) e f s(2)] w show ?thesis
    by (simp add: py_def)
qed

text \<open>
  C10. When the generated SQL runs and returns no row, \<open>/query/visualize\<close> returns no
  image, whatever the hint: the frame has no column, the automatic choice is \<open>bar\<close>, the
  lookup of the first column raises \<open>IndexError\<close>, and the handler turns it into HTTP 500.
  The session is closed all the same.
\<close>

theorem visualize_data_no_rows:
  assumes "generate_sql_query (llm_helper a) q SCHEMA_INFO = Inr sql"
    and "\<not> startswith sql (py ''Error'')"
    and "execute a sql = Inr []"
  shows "columns_of [] = [] \<and>
    choose_chart_type None (columns_of []) (length ([] :: row list)) = py ''bar'' \<and>
    fst (visualize_data a q chart_type) = Inl (HTTPException 500 (index_error 0 0)) \<and>
    open_sessions (snd (visualize_data a q chart_type)) = 0"
proof -
  have cols: "columns_of [] = []" by (simp add: columns_of_def)
  have "py ''date'' \<notin> set []" by simp
  then have chart: "generate_chart a t [] [] = Inl (index_error 0 0)" for t
    by (simp add: generate_chart_def)
  have "visualize_data_try a q chart_type =
      (Inl (Exception (index_error 0 0)), [Generate_sql, Session_open, Session_execute sql, Session_close])"
    using assms by (simp add: visualize_data_try_def cols chart)
  then have "visualize_data a q chart_type =
      (Inl (HTTPException 500 (index_error 0 0)), [Generate_sql, Session_open, Session_execute sql, Session_close])"
    by (simp add: visualize_data_def)
  then show ?thesis
    by (simp add: cols choose_chart_type_def auto_chart_type_def open_sessions_def)
qed

theorem visualize_data_no_rows_witness:
  "fst (visualize_data
     \<lparr>llm_helper = \<lparr>model = Some (\<lambda>p. Responds (Some (py ''SELECT 1 WHERE 0'')))\<rparr>,
      execute = (\<lambda>sql. Inr []),
      to_datetime = (\<lambda>vs. Inr (map (\<lambda>v. None) vs)), sort_values = (\<lambda>c df. df), savefig = (\<lambda>calls. Inr [137, 80, 78, 71])\<rparr>
     (py ''sales by day?'') None)
     = Inl (HTTPException 500 (py ''index 0 is out of bounds for axis 0 with size 0''))"
proof -
  let ?a = "\<lparr>llm_helper = \<lparr>model = Some (\<lambda>p. Responds (Some (py ''SELECT 1 WHERE 0'')))\<rparr>,
      execute = (\<lambda>sql. Inr ([] :: row list)),
      to_datetime = (\<lambda>vs. Inr (map (\<lambda>v. None) vs)), sort_values = (\<lambda>c df. df), savefig = (\<lambda>calls. Inr [137, 80, 78, 71])\<rparr>"
  have g: "generate_sql_query (llm_helper ?a) (py ''sales by day?'') SCHEMA_INFO
      = Inr (py ''SELECT 1 WHERE 0;'')"
    by (simp add: generate_sql_query_def generate_sql_query_try_def eval_simps)
  have s: "\<not> startswith (py ''SELECT 1 WHERE 0;'') (py ''Error'')"
    by (simp add: startswith_def py_def)
  have e: "execute ?a (py ''SELECT 1 WHERE 0;'') = Inr []" by simp
  have i: "index_error 0 0 = py ''index 0 is out of bounds for axis 0 with size 0''"
    by (simp add: index_error_def str_nat.simps py_def)
  from visualize_data_no_rows [OF g s e, of None] i show ?thesis by simp
qed

text \<open>
  C3. Every handler that opens a session closes it on every path.  This fails for
  \<open>/query/clean\<close>: when the execution raises, \<open>clean_answer\<close> returns with its session
  still open, where \<open>/query\<close>, \<open>/query/stream\<close> and \<open>/query/visualize\<close> close theirs
  (\<open>answer_question_closes\<close>, \<open>answer_question_stream_closes\<close>,
  \<open>visualize_data_closes\<close>).
\<close>

theorem clean_answer_leaves_session_open:
  "clean_answer
     \<lparr>llm_helper = \<lparr>model = Some (\<lambda>p. Responds (Some (py ''SELEC 1'')))\<rparr>,
      execute = (\<lambda>sql. Inl (py ''syntax error'')),
      to_datetime = (\<lambda>vs. Inr []), sort_values = (\<lambda>c df. df), savefig = (\<lambda>calls. Inr [])\<rparr> (py ''total sales?'')
     = (py ''Error processing request: syntax error'',
        [Generate_sql, Session_open, Session_execute (py ''SELEC 1;'')]) \<and>
   open_sessions [Generate_sql, Session_open, Session_execute (py ''SELEC 1;'')] = 1"
proof -
  let ?a = "\<lparr>llm_helper = \<lparr>model = Some (\<lambda>p. Responds (Some (py ''SELEC 1'')))\<rparr>,
      execute = (\<lambda>sql. Inl (py ''syntax error'')),
      to_datetime = (\<lambda>vs. Inr []), sort_values = (\<lambda>c df. df), savefig = (\<lambda>calls. Inr [])\<rparr>"
  have g: "generate_sql_query (llm_helper ?a) (py ''total sales?'') SCHEMA_INFO = Inr (py ''SELEC 1;'')"
    by (simp add: generate_sql_query_def generate_sql_query_try_def eval_simps)
  have s: "\<not> startswith (py ''SELEC 1;'') (py ''Error'')"
    by (simp add: startswith_def py_def)
  have e: "execute ?a (py ''SELEC 1;'') = Inl (py ''syntax error'')" by simp
  from clean_answer_leak [OF g s e] show ?thesis by (simp add: py_def)
qed

end
